theory Spec2Isabelle
  imports Complex_Main "HOL-Library.Word"
begin

section \<open>Python values used by the three drafts\<close>

text \<open>
  The repository holds three drafts of one tool: \<^verbatim>\<open>if_8.py\<close>, \<^verbatim>\<open>if_8v2.py\<close> and
  \<^verbatim>\<open>if_v4.py\<close>. Definitions that belong to the second or the third draft carry the
  suffix \<open>_v2\<close> or \<open>_v4\<close>; \<open>format_bytes\<close> is the same function in all three,
  and it is all that is taken from the first.

  Exceptions are values. Only the classes which some \<^verbatim>\<open>except\<close> clause of the drafts
  tells apart are kept; a subclass is filed under its nearest listed ancestor
  (\<^verbatim>\<open>FileNotFoundError\<close> and \<^verbatim>\<open>IOError\<close> are \<open>OSError\<close>, \<^verbatim>\<open>UnicodeDecodeError\<close> is
  \<open>ValueError\<close>). \<open>KeyboardInterrupt\<close> is the one class here that does not derive
  from \<^verbatim>\<open>Exception\<close>. The string is what \<^verbatim>\<open>str(e)\<close> gives.
\<close>

datatype exn_class =
  IndexError | ValueError | OverflowError | StructError | OSError
  | OtherException | KeyboardInterrupt

datatype exn = Exn (cls: exn_class) (msg: string)

definition is_Exception :: "exn \<Rightarrow> bool" where
  "is_Exception e = (cls e \<noteq> KeyboardInterrupt)"

definition index_error :: exn where
  "index_error = Exn IndexError ''list index out of range''"

definition overflow_error :: exn where
  "overflow_error = Exn OverflowError ''int too large to convert to float''"

definition struct_error :: exn where
  "struct_error = Exn StructError ''unpack requires a buffer of 2 bytes''"

subsection \<open>Decimal digits\<close>

definition is_digit :: "char \<Rightarrow> bool" where
  "is_digit c = (c \<in> set ''0123456789'')"

definition digit_char :: "nat \<Rightarrow> char" where
  "digit_char d = ''0123456789'' ! (d mod 10)"

definition digit_val :: "char \<Rightarrow> nat" where
  "digit_val c = of_char c - of_char (CHR ''0'')"

text \<open>\<^verbatim>\<open>str(n)\<close> for a natural number: its decimal digits, most significant first.\<close>

fun str_nat :: "nat \<Rightarrow> string" where
  "str_nat n = (if n < 10 then [digit_char n] else str_nat (n div 10) @ [digit_char (n mod 10)])"

declare str_nat.simps [simp del]

definition str_int :: "int \<Rightarrow> string" where
  "str_int i = (if i < 0 then CHR ''-'' # str_nat (nat (- i)) else str_nat (nat i))"

subsection \<open>Floats\<close>

text \<open>
  A Python float is an IEEE 754 binary64 value; the finite ones are rational numbers, and
  \<open>format_bytes\<close> only ever holds finite ones, so a float is modelled by the rational
  it denotes.

  \<^item> \<^verbatim>\<open>float(n)\<close> for an int rounds \<open>n\<close> to 53 significant bits, ties to even, and raises
    \<^verbatim>\<open>OverflowError\<close> when the rounded value reaches \<open>2 ^ 1024\<close>.
  \<^item> \<^verbatim>\<open>x / 1024\<close> is exact on a binary64 value \<open>x \<ge> 1024\<close>: it lowers the exponent by ten
    and the result stays normal. The loop of \<open>format_bytes\<close> divides only under that
    guard, so the quotient is the rational quotient.
  \<^item> \<^verbatim>\<open>f"{x:.1f}"\<close> prints the decimal with one fractional digit nearest to the exact
    value of \<open>x\<close>, ties to even.
\<close>

fun bit_len :: "nat \<Rightarrow> nat" where
  "bit_len n = (if n = 0 then 0 else Suc (bit_len (n div 2)))"

declare bit_len.simps [simp del]

definition round_half_even :: "rat \<Rightarrow> int" where
  "round_half_even q =
     (let f = \<lfloor>q\<rfloor>; r = q - of_int f
      in if r < 1 / 2 then f
         else if 1 / 2 < r then f + 1
         else if even f then f else f + 1)"

definition py_float :: "int \<Rightarrow> exn + rat" where
  "py_float n =
     (let a = nat \<bar>n\<bar>; e = bit_len a
      in if e \<le> 53 then Inr (of_int n)
         else
           let sh = e - 53;
               m = round_half_even (Fract (int a) (2 ^ sh));
               v = m * 2 ^ sh
           in if 2 ^ 1024 \<le> v then Inl overflow_error
              else Inr (of_int (sgn n * v)))"

definition format_1f :: "rat \<Rightarrow> string" where
  "format_1f x =
     (let t = nat (round_half_even (\<bar>x\<bar> * 10))
      in (if x < 0 then ''-'' else '''') @ str_nat (t div 10) @ ''.'' @ [digit_char (t mod 10)])"

section \<open>The byte formatter\<close>

text \<open>
  \<^verbatim>\<open>format_bytes\<close> (\<^verbatim>\<open>if_8.py\<close> 12-22, \<^verbatim>\<open>if_8v2.py\<close> 13-23, \<^verbatim>\<open>if_v4.py\<close> 53-63). The unit
  ladder is a local list in the first two drafts and \<^verbatim>\<open>config.BYTE_UNITS\<close> in the
  third, with the same five entries. The loop is
  \<^verbatim>\<open>while readable_size >= 1024 and unit_index < len(units) - 1\<close>.
\<close>

function scale_loop :: "string list \<Rightarrow> rat \<Rightarrow> nat \<Rightarrow> rat \<times> nat" where
  "scale_loop units readable_size unit_index =
     (if 1024 \<le> readable_size \<and> int unit_index < int (length units) - 1
      then scale_loop units (readable_size / 1024) (unit_index + 1)
      else (readable_size, unit_index))"
  by pat_completeness auto
termination
  by (relation "measure (\<lambda>(units, readable_size, unit_index). length units - unit_index)") auto

declare scale_loop.simps [simp del]

definition format_bytes_units :: "string list \<Rightarrow> int \<Rightarrow> exn + string" where
  "format_bytes_units units sz =
     (case py_float sz of
        Inl e \<Rightarrow> Inl e
      | Inr x \<Rightarrow>
          (case scale_loop units x 0 of
             (readable_size, unit_index) \<Rightarrow>
               if unit_index < length units
               then Inr (format_1f readable_size @ '' '' @ units ! unit_index)
               else Inl index_error))"

text \<open>The ladder of \<^verbatim>\<open>if_8.py\<close> and \<^verbatim>\<open>if_8v2.py\<close>, and their \<^verbatim>\<open>format_bytes\<close>.\<close>

definition units :: "string list" where
  "units = [''B'', ''KiB'', ''MiB'', ''GiB'', ''TiB'']"

definition format_bytes :: "int \<Rightarrow> exn + string" where
  "format_bytes sz = format_bytes_units units sz"

section \<open>Text handling\<close>

text \<open>
  A \<^verbatim>\<open>str\<close> is a list of characters with code points below 256. \<open>is_space\<close> is
  \<^verbatim>\<open>str.isspace\<close> on that range; \<^verbatim>\<open>strip()\<close> and \<^verbatim>\<open>split()\<close> without arguments use it.
\<close>

definition NL :: char where
  "NL = CHR 0x0A"

definition is_space :: "char \<Rightarrow> bool" where
  "is_space c = ((of_char c :: nat) \<in> {9, 10, 11, 12, 13, 28, 29, 30, 31, 32, 133, 160})"

definition strip :: "string \<Rightarrow> string" where
  "strip s = rev (dropWhile is_space (rev (dropWhile is_space s)))"

text \<open>\<^verbatim>\<open>s.split()\<close>: the maximal runs of non-space characters.\<close>

fun words_acc :: "string \<Rightarrow> string \<Rightarrow> string list" where
  "words_acc cur [] = (if cur = [] then [] else [cur])"
| "words_acc cur (c # cs) =
     (if is_space c then (if cur = [] then words_acc [] cs else cur # words_acc [] cs)
      else words_acc (cur @ [c]) cs)"

definition split_ws :: "string \<Rightarrow> string list" where
  "split_ws s = words_acc [] s"

text \<open>\<^verbatim>\<open>s.split(sep)\<close> for a one-character separator: at least one part, empty parts kept.\<close>

fun split_acc :: "char \<Rightarrow> string \<Rightarrow> string \<Rightarrow> string list" where
  "split_acc sep cur [] = [cur]"
| "split_acc sep cur (c # cs) =
     (if c = sep then cur # split_acc sep [] cs else split_acc sep (cur @ [c]) cs)"

definition split_on :: "char \<Rightarrow> string \<Rightarrow> string list" where
  "split_on sep s = split_acc sep [] s"

text \<open>
  \<^verbatim>\<open>f.readlines()\<close> on the text of a file opened in text mode (line ends already
  translated to \<^verbatim>\<open>\n\<close>): every line keeps its terminator; a last line without one is kept.
\<close>

fun lines_acc :: "string \<Rightarrow> string \<Rightarrow> string list" where
  "lines_acc cur [] = (if cur = [] then [] else [cur])"
| "lines_acc cur (c # cs) =
     (if c = NL then (cur @ [c]) # lines_acc [] cs else lines_acc (cur @ [c]) cs)"

definition readlines :: "string \<Rightarrow> string list" where
  "readlines text = lines_acc [] text"

text \<open>
  \<^verbatim>\<open>int(s)\<close> on a string: surrounding whitespace is dropped, then an optional sign and
  decimal digits, where single underscores may stand between digits. CPython refuses a
  string with more digit characters than \<^verbatim>\<open>sys.get_int_max_str_digits()\<close>, 4300 unless
  changed, leading zeros counted and underscores not. \<open>None\<close> is \<^verbatim>\<open>ValueError\<close>.
\<close>

definition max_str_digits :: nat where
  "max_str_digits = 4300"

fun py_digits :: "nat \<Rightarrow> string \<Rightarrow> nat option" where
  "py_digits acc [] = Some acc"
| "py_digits acc (c # cs) =
     (if is_digit c then py_digits (acc * 10 + digit_val c) cs
      else if c = CHR ''_'' \<and> cs \<noteq> [] \<and> is_digit (hd cs) then py_digits acc cs
      else None)"

definition py_int :: "string \<Rightarrow> int option" where
  "py_int s =
     (case strip s of
        [] \<Rightarrow> None
      | c # cs \<Rightarrow>
          if max_str_digits < length (filter is_digit (c # cs)) then None
          else if c = CHR ''-'' \<or> c = CHR ''+'' then
            (if cs \<noteq> [] \<and> is_digit (hd cs)
             then map_option (\<lambda>n. if c = CHR ''-'' then - int n else int n) (py_digits 0 cs)
             else None)
          else if is_digit c then map_option int (py_digits 0 (c # cs))
          else None)"

definition value_error :: "string \<Rightarrow> exn" where
  "value_error s =
     Exn ValueError (''invalid literal for int() with base 10: '' @ [CHR 0x27] @ s @ [CHR 0x27])"

section \<open>The host\<close>

text \<open>
  What the drafts ask of the operating system, as one record: \<^verbatim>\<open>sys.platform\<close>,
  \<^verbatim>\<open>netifaces.interfaces()\<close>, \<^verbatim>\<open>netifaces.ifaddresses(name)\<close> (a dict from address family
  to a list of dicts), the outcome of opening a datagram socket and calling
  \<^verbatim>\<open>fcntl.ioctl(fd, request, arg)\<close> on it, \<^verbatim>\<open>os.path.exists\<close>, and opening a file and
  reading all of it. Every call either raises or returns.
\<close>

type_synonym byte = "8 word"

type_synonym addr_dict = "string \<rightharpoonup> string"

record host =
  platform :: string
  interfaces :: "exn + string list"
  ifaddresses :: "string \<Rightarrow> exn + (nat \<rightharpoonup> addr_dict list)"
  ioctl :: "nat \<Rightarrow> byte list \<Rightarrow> exn + byte list"
  path_exists :: "string \<Rightarrow> bool"
  read_file :: "string \<Rightarrow> exn + string"

definition AF_INET :: nat where
  "AF_INET = 2"

definition SIOCGIFMTU :: nat where
  "SIOCGIFMTU = 0x8921"

text \<open>\<^verbatim>\<open>str.encode()\<close> (UTF-8) on code points below 256.\<close>

definition encode :: "string \<Rightarrow> byte list" where
  "encode s =
     concat (map (\<lambda>c. let n = (of_char c :: nat)
                       in if n < 128 then [of_nat n] else [of_nat (192 + n div 64), of_nat (128 + n mod 64)]) s)"

text \<open>
  \<^verbatim>\<open>struct.pack\<close> with the formats the drafts use. \<^verbatim>\<open>'Ns'\<close> cuts or zero-pads to \<open>N\<close>
  bytes; \<^verbatim>\<open>'H'\<close> is an unsigned 16-bit integer in native byte order, taken here as that of
  a little-endian host, and needs no padding at offset 16. \<^verbatim>\<open>struct.unpack('H', b)\<close>
  raises \<^verbatim>\<open>struct.error\<close> unless \<open>b\<close> has exactly two bytes.
\<close>

definition pack_s :: "nat \<Rightarrow> byte list \<Rightarrow> byte list" where
  "pack_s n bs = take n bs @ replicate (n - length bs) 0"

definition pack_H :: "nat \<Rightarrow> byte list" where
  "pack_H v = [of_nat (v mod 256), of_nat (v div 256 mod 256)]"

definition pack_16sH :: "byte list \<Rightarrow> nat \<Rightarrow> byte list" where
  "pack_16sH bs v = pack_s 16 bs @ pack_H v"

definition unpack_H :: "byte list \<Rightarrow> exn + int" where
  "unpack_H bs =
     (case bs of
        [b0, b1] \<Rightarrow> Inr (uint b0 + 256 * uint b1)
      | _ \<Rightarrow> Inl struct_error)"

text \<open>The slice \<^verbatim>\<open>b[i:j]\<close> for \<open>0 \<le> i \<le> j\<close>.\<close>

definition slice :: "nat \<Rightarrow> nat \<Rightarrow> 'a list \<Rightarrow> 'a list" where
  "slice i j xs = take (j - i) (drop i xs)"

text \<open>Truth value of an \<^verbatim>\<open>int\<close> or \<^verbatim>\<open>None\<close>.\<close>

definition truthy :: "int option \<Rightarrow> bool" where
  "truthy m = (case m of None \<Rightarrow> False | Some v \<Rightarrow> v \<noteq> 0)"

text \<open>
  A procedure of the drafts returns the lines it printed, one string for each call of
  \<^verbatim>\<open>print\<close>, and the exception that left it, if one did.
\<close>

type_synonym outcome = "string list \<times> exn option"

definition and_then :: "outcome \<Rightarrow> outcome \<Rightarrow> outcome" where
  "and_then p q = (case p of (out, Some e) \<Rightarrow> (out, Some e) | (out, None) \<Rightarrow> (out @ fst q, snd q))"

text \<open>\<^verbatim>\<open>d.get(key, 'N/A')\<close>.\<close>

definition get_or_NA :: "addr_dict \<Rightarrow> string \<Rightarrow> string" where
  "get_or_NA d k = (case d k of None \<Rightarrow> ''N/A'' | Some v \<Rightarrow> v)"

definition except_Exception :: "(exn \<Rightarrow> string) \<Rightarrow> outcome \<Rightarrow> outcome" where
  \<comment> \<open>\<^verbatim>\<open>try: ... except Exception as e: print(report(e))\<close>\<close>
  "except_Exception report p =
     (case p of
        (out, Some e) \<Rightarrow> if is_Exception e then (out @ [report e], None) else (out, Some e)
      | (out, None) \<Rightarrow> (out, None))"

definition ipv4_entry :: "(nat \<rightharpoonup> addr_dict list) \<Rightarrow> exn + addr_dict" where
  \<comment> \<open>\<^verbatim>\<open>addrs.get(netifaces.AF_INET, [{}])[0]\<close>\<close>
  "ipv4_entry addrs =
     (case addrs AF_INET of
        None \<Rightarrow> Inr Map.empty
      | Some [] \<Rightarrow> Inl index_error
      | Some (d # _) \<Rightarrow> Inr d)"

section \<open>The second draft, \<^verbatim>\<open>if_8v2.py\<close>\<close>

definition RESET_COLOR :: string where
  "RESET_COLOR = [CHR 0x1B] @ ''[0m''"

definition GREY_COLOR :: string where
  "GREY_COLOR = [CHR 0x1B] @ ''[38;5;250m''"

definition SEP_COLOR :: string where
  "SEP_COLOR = [CHR 0x1B] @ ''[38;5;130m''"

text \<open>\<^verbatim>\<open>get_mtu\<close> (25-33): the lines it prints and what it returns.\<close>

definition get_mtu_v2 :: "host \<Rightarrow> string \<Rightarrow> string list \<times> (exn + int option)" where
  "get_mtu_v2 h interface =
     (case (case ioctl h SIOCGIFMTU (pack_s 256 (take 16 (encode interface))) of
              Inl e \<Rightarrow> Inl e
            | Inr reply \<Rightarrow> unpack_H (slice 16 18 reply)) of
        Inr mtu \<Rightarrow> ([], Inr (Some mtu))
      | Inl e \<Rightarrow>
          if cls e = OSError
          then ([''Error retrieving MTU for interface '' @ [CHR 0x27] @ interface @ [CHR 0x27]
                  @ '': '' @ msg e], Inr None)
          else ([], Inl e))"

text \<open>The branch on \<^verbatim>\<open>mtu\<close> at the end of \<^verbatim>\<open>get_interface_info\<close> (49-53).\<close>

definition mtu_lines_v2 :: "int option \<Rightarrow> string list" where
  "mtu_lines_v2 mtu =
     (if truthy mtu then [''    MTU: '' @ str_int (the mtu)] else [''    MTU: Unable to retrieve''])"

text \<open>
  \<^verbatim>\<open>get_interface_info\<close> (35-56): first the body of its \<^verbatim>\<open>try\<close>, then the function with
  the header line before the \<^verbatim>\<open>try\<close> and the handler after it.
\<close>

definition interface_attributes_v2 :: "host \<Rightarrow> string \<Rightarrow> outcome" where
  "interface_attributes_v2 h interface =
     (case ifaddresses h interface of
        Inl e \<Rightarrow> ([], Some e)
      | Inr addrs \<Rightarrow>
          (case ipv4_entry addrs of
             Inl e \<Rightarrow> ([], Some e)
           | Inr iface_flags \<Rightarrow>
               let ip_address = get_or_NA iface_flags ''addr'';
                   netmask = get_or_NA iface_flags ''netmask'';
                   broadcast = get_or_NA iface_flags ''broadcast'';
                   printed = [''    inet: '' @ ip_address, ''    netmask: '' @ netmask,
                              ''    broadcast: '' @ broadcast]
               in (case get_mtu_v2 h interface of
                     (p, Inl e) \<Rightarrow> (printed @ p, Some e)
                   | (p, Inr mtu) \<Rightarrow> (printed @ p @ mtu_lines_v2 mtu, None))))"

definition get_interface_info_v2 :: "host \<Rightarrow> string \<Rightarrow> outcome" where
  "get_interface_info_v2 h interface =
     and_then ([SEP_COLOR @ interface @ '':'' @ RESET_COLOR], None)
       (except_Exception (\<lambda>e. ''    Error retrieving interface information: '' @ msg e)
          (interface_attributes_v2 h interface))"

fun network_loop_v2 :: "host \<Rightarrow> string list \<Rightarrow> outcome" where
  "network_loop_v2 h [] = ([], None)"
| "network_loop_v2 h (interface # rest) =
     and_then (get_interface_info_v2 h interface) (network_loop_v2 h rest)"

definition display_network_info_v2 :: "host \<Rightarrow> outcome" where
  "display_network_info_v2 h =
     and_then ([GREY_COLOR @ ''Network Interfaces:'' @ RESET_COLOR], None)
       (case interfaces h of
          Inl e \<Rightarrow> ([], Some e)
        | Inr names \<Rightarrow> network_loop_v2 h names)"

text \<open>
  \<^verbatim>\<open>display_traffic_stats\<close> (67-107). The body of the loop is split where the source
  turns from reading the line (80-97) to printing it (99-104): \<open>Skip\<close> is a silent
  \<^verbatim>\<open>continue\<close>, \<open>Invalid\<close> the \<^verbatim>\<open>continue\<close> after the message of line 96.
\<close>

datatype parsed = Skip | Invalid string | Entry string int int

definition parse_line_v2 :: "string \<Rightarrow> parsed" where
  "parse_line_v2 line =
     (if strip line = [] then Skip
      else
        let parts = split_on CHR '':'' line
        in if length parts < 2 then Skip
           else
             let iface = strip (parts ! 0); stats = split_ws (parts ! 1)
             in if length stats < 9 then Skip
                else
                  (case py_int (stats ! 0) of
                     None \<Rightarrow> Invalid iface
                   | Some rx_bytes \<Rightarrow>
                       (case py_int (stats ! 8) of
                          None \<Rightarrow> Invalid iface
                        | Some tx_bytes \<Rightarrow> Entry iface rx_bytes tx_bytes)))"

definition render_entry_v2 :: "string \<Rightarrow> int \<Rightarrow> int \<Rightarrow> outcome" where
  "render_entry_v2 iface rx_bytes tx_bytes =
     (case format_bytes rx_bytes of
        Inl e \<Rightarrow> ([], Some e)
      | Inr rx_formatted \<Rightarrow>
          (case format_bytes tx_bytes of
             Inl e \<Rightarrow> ([], Some e)
           | Inr tx_formatted \<Rightarrow>
               ([SEP_COLOR @ ''  '' @ iface @ '':'' @ RESET_COLOR,
                 ''    RX: '' @ (if rx_bytes = 0 then GREY_COLOR @ ''No traffic''
                                 else GREY_COLOR @ rx_formatted) @ RESET_COLOR,
                 ''    TX: '' @ (if tx_bytes = 0 then GREY_COLOR @ ''No traffic''
                                 else GREY_COLOR @ tx_formatted) @ RESET_COLOR], None)))"

definition traffic_line_v2 :: "string \<Rightarrow> outcome" where
  "traffic_line_v2 line =
     (case parse_line_v2 line of
        Skip \<Rightarrow> ([], None)
      | Invalid iface \<Rightarrow> ([''Skipping invalid stats for interface: '' @ iface], None)
      | Entry iface rx_bytes tx_bytes \<Rightarrow> render_entry_v2 iface rx_bytes tx_bytes)"

fun traffic_loop_v2 :: "string list \<Rightarrow> outcome" where
  "traffic_loop_v2 [] = ([], None)"
| "traffic_loop_v2 (line # rest) = and_then (traffic_line_v2 line) (traffic_loop_v2 rest)"


section \<open>The third draft, \<^verbatim>\<open>if_v4.py\<close>\<close>

text \<open>
  The module-level \<^verbatim>\<open>config\<close> object (13-19); \<^verbatim>\<open>FILTER_INTERFACES\<close> is a set of names or
  \<^verbatim>\<open>None\<close>. The functions of the draft read it when they run, so they take it as an
  argument here.
\<close>

record config =
  FILTER_INTERFACES :: "string set option"
  COLOR_OUTPUT :: bool
  BYTE_UNITS :: "string list"
  PROC_NET_DEV :: string
  SYSFS_NET_PATH :: string

definition config :: config where
  "config =
     \<lparr>FILTER_INTERFACES = Some {''eth0'', ''wlan0''},
      COLOR_OUTPUT = True,
      BYTE_UNITS = [''B'', ''KiB'', ''MiB'', ''GiB'', ''TiB''],
      PROC_NET_DEV = ''/proc/net/dev'',
      SYSFS_NET_PATH = ''/sys/class/net''\<rparr>"

text \<open>
  The class \<^verbatim>\<open>Colors\<close> (21-32): its attributes as the module defines them, and after
  \<^verbatim>\<open>Colors.disable()\<close>. The functions take the attributes current at the call.
\<close>

record colors =
  RESET :: string
  GREY :: string
  SEPIA :: string
  RED :: string
  GREEN :: string

definition Colors :: colors where
  "Colors =
     \<lparr>RESET = [CHR 0x1B] @ ''[0m'',
      GREY = [CHR 0x1B] @ ''[38;5;250m'',
      SEPIA = [CHR 0x1B] @ ''[38;5;130m'',
      RED = [CHR 0x1B] @ ''[31m'',
      GREEN = [CHR 0x1B] @ ''[32m''\<rparr>"

definition disable :: "colors \<Rightarrow> colors" where
  "disable col = col\<lparr>RESET := [], GREY := [], SEPIA := [], RED := [], GREEN := []\<rparr>"

definition format_bytes_v4 :: "config \<Rightarrow> int \<Rightarrow> exn + string" where
  "format_bytes_v4 cfg sz = format_bytes_units (BYTE_UNITS cfg) sz"

text \<open>The class \<^verbatim>\<open>InterfaceTraffic\<close> (34-51).\<close>

record InterfaceTraffic =
  name :: string
  rx_bytes :: int
  tx_bytes :: int

definition InterfaceTraffic_init :: "string \<Rightarrow> InterfaceTraffic" where
  "InterfaceTraffic_init nm = \<lparr>name = nm, rx_bytes = 0, tx_bytes = 0\<rparr>"

definition update :: "InterfaceTraffic \<Rightarrow> int \<Rightarrow> int \<Rightarrow> InterfaceTraffic" where
  "update self rx tx = self\<lparr>rx_bytes := rx, tx_bytes := tx\<rparr>"

definition rx_human :: "config \<Rightarrow> InterfaceTraffic \<Rightarrow> exn + string" where
  "rx_human cfg self = format_bytes_v4 cfg (rx_bytes self)"

definition tx_human :: "config \<Rightarrow> InterfaceTraffic \<Rightarrow> exn + string" where
  "tx_human cfg self = format_bytes_v4 cfg (tx_bytes self)"

text \<open>
  \<^verbatim>\<open>get_mtu\<close> (65-79): the device-control query, and the read of the sysfs file when the
  query left with \<^verbatim>\<open>OSError\<close> or \<^verbatim>\<open>struct.error\<close>; the read's \<^verbatim>\<open>IOError\<close> (the same class
  as \<^verbatim>\<open>OSError\<close>) and \<^verbatim>\<open>ValueError\<close> give \<^verbatim>\<open>None\<close>.
\<close>

definition get_mtu_ioctl_v4 :: "host \<Rightarrow> string \<Rightarrow> exn + int" where
  "get_mtu_ioctl_v4 h interface =
     (let ifr = pack_16sH (encode interface) 0
      in case ioctl h SIOCGIFMTU ifr of
           Inl e \<Rightarrow> Inl e
         | Inr reply \<Rightarrow> unpack_H (slice 16 18 reply))"

definition get_mtu_sysfs_v4 :: "config \<Rightarrow> host \<Rightarrow> string \<Rightarrow> exn + int" where
  "get_mtu_sysfs_v4 cfg h interface =
     (case read_file h (SYSFS_NET_PATH cfg @ ''/'' @ interface @ ''/mtu'') of
        Inl e \<Rightarrow> Inl e
      | Inr content \<Rightarrow>
          (case py_int content of
             None \<Rightarrow> Inl (value_error content)
           | Some v \<Rightarrow> Inr v))"

definition get_mtu_v4 :: "config \<Rightarrow> host \<Rightarrow> string \<Rightarrow> exn + int option" where
  "get_mtu_v4 cfg h interface =
     (case get_mtu_ioctl_v4 h interface of
        Inr mtu \<Rightarrow> Inr (Some mtu)
      | Inl e \<Rightarrow>
          if cls e = OSError \<or> cls e = StructError then
            (case get_mtu_sysfs_v4 cfg h interface of
               Inr mtu \<Rightarrow> Inr (Some mtu)
             | Inl e' \<Rightarrow> if cls e' = OSError \<or> cls e' = ValueError then Inr None else Inl e')
          else Inl e)"

text \<open>The branch on \<^verbatim>\<open>mtu\<close> in \<^verbatim>\<open>get_interface_info\<close> (93-94): it has no \<^verbatim>\<open>else\<close>.\<close>

definition mtu_lines_v4 :: "int option \<Rightarrow> string list" where
  "mtu_lines_v4 mtu = (if truthy mtu then [''    MTU: '' @ str_int (the mtu)] else [])"

text \<open>
  \<^verbatim>\<open>get_interface_info\<close> (81-96): the body of its \<^verbatim>\<open>try\<close>, then the function with the
  header line before the \<^verbatim>\<open>try\<close> and the handler after it.
\<close>

definition interface_attributes_v4 :: "config \<Rightarrow> host \<Rightarrow> string \<Rightarrow> outcome" where
  "interface_attributes_v4 cfg h interface =
     (case ifaddresses h interface of
        Inl e \<Rightarrow> ([], Some e)
      | Inr addrs \<Rightarrow>
          (case ipv4_entry addrs of
             Inl e \<Rightarrow> ([], Some e)
           | Inr ipv4 \<Rightarrow>
               let printed = [''    inet: '' @ get_or_NA ipv4 ''addr'',
                              ''    netmask: '' @ get_or_NA ipv4 ''netmask'',
                              ''    broadcast: '' @ get_or_NA ipv4 ''broadcast'']
               in (case get_mtu_v4 cfg h interface of
                     Inl e \<Rightarrow> (printed, Some e)
                   | Inr mtu \<Rightarrow> (printed @ mtu_lines_v4 mtu, None))))"

definition get_interface_info_v4 :: "config \<Rightarrow> colors \<Rightarrow> host \<Rightarrow> string \<Rightarrow> outcome" where
  "get_interface_info_v4 cfg col h interface =
     and_then ([SEPIA col @ interface @ '':'' @ RESET col], None)
       (except_Exception (\<lambda>e. RED col @ ''    Error: '' @ msg e @ RESET col)
          (interface_attributes_v4 cfg h interface))"

text \<open>\<^verbatim>\<open>config.FILTER_INTERFACES and interface not in config.FILTER_INTERFACES\<close>.\<close>

definition excluded :: "config \<Rightarrow> string \<Rightarrow> bool" where
  "excluded cfg interface =
     (case FILTER_INTERFACES cfg of
        None \<Rightarrow> False
      | Some S \<Rightarrow> S \<noteq> {} \<and> interface \<notin> S)"

fun network_loop_v4 :: "config \<Rightarrow> colors \<Rightarrow> host \<Rightarrow> string list \<Rightarrow> outcome" where
  "network_loop_v4 cfg col h [] = ([], None)"
| "network_loop_v4 cfg col h (interface # rest) =
     (if excluded cfg interface then network_loop_v4 cfg col h rest
      else and_then (get_interface_info_v4 cfg col h interface) (network_loop_v4 cfg col h rest))"

definition display_network_info_v4 :: "config \<Rightarrow> colors \<Rightarrow> host \<Rightarrow> outcome" where
  "display_network_info_v4 cfg col h =
     and_then ([GREY col @ ''Network Interfaces:'' @ RESET col], None)
       (case interfaces h of
          Inl e \<Rightarrow> ([], Some e)
        | Inr names \<Rightarrow> network_loop_v4 cfg col h names)"

text \<open>
  \<^verbatim>\<open>display_traffic_stats\<close> (108-136). Line 121 splits the line and takes parts 0 and 1,
  outside the inner \<^verbatim>\<open>try\<close>; line 127 converts tokens 0 and 8, inside it; lines 129-131
  print, inside it too, each line before the next counter is formatted.
\<close>

definition parse_line_v4 :: "string \<Rightarrow> exn + string \<times> string list" where
  "parse_line_v4 line =
     (let parts = split_on CHR '':'' line
      in if length parts < 2 then Inl index_error
         else Inr (strip (parts ! 0), split_ws (parts ! 1)))"

definition parse_counters_v4 :: "string list \<Rightarrow> exn + int \<times> int" where
  "parse_counters_v4 stats =
     (if length stats < 1 then Inl index_error
      else
        (case py_int (stats ! 0) of
           None \<Rightarrow> Inl (value_error (stats ! 0))
         | Some rx \<Rightarrow>
             if length stats < 9 then Inl index_error
             else
               (case py_int (stats ! 8) of
                  None \<Rightarrow> Inl (value_error (stats ! 8))
                | Some tx \<Rightarrow> Inr (rx, tx))))"

definition print_entry_v4 :: "config \<Rightarrow> colors \<Rightarrow> string \<Rightarrow> InterfaceTraffic \<Rightarrow> outcome" where
  "print_entry_v4 cfg col iface traffic =
     (let l1 = SEPIA col @ ''  '' @ iface @ '':'' @ RESET col
      in case rx_human cfg traffic of
           Inl e \<Rightarrow> ([l1], Some e)
         | Inr rx \<Rightarrow>
             let l2 = ''    RX: '' @ GREY col @ rx @ RESET col
             in (case tx_human cfg traffic of
                   Inl e \<Rightarrow> ([l1, l2], Some e)
                 | Inr tx \<Rightarrow> ([l1, l2, ''    TX: '' @ GREY col @ tx @ RESET col], None)))"

definition traffic_entry_v4 :: "config \<Rightarrow> colors \<Rightarrow> string \<Rightarrow> string list \<Rightarrow> outcome" where
  \<comment> \<open>the inner \<^verbatim>\<open>try\<close> (125-133) with its \<^verbatim>\<open>except (IndexError, ValueError): continue\<close>\<close>
  "traffic_entry_v4 cfg col iface stats =
     (case (case parse_counters_v4 stats of
              Inl e \<Rightarrow> ([], Some e)
            | Inr (rx, tx) \<Rightarrow>
                print_entry_v4 cfg col iface (update (InterfaceTraffic_init iface) rx tx)) of
        (out, Some e) \<Rightarrow>
          if cls e = IndexError \<or> cls e = ValueError then (out, None) else (out, Some e)
      | (out, None) \<Rightarrow> (out, None))"

fun traffic_loop_v4 :: "config \<Rightarrow> colors \<Rightarrow> string list \<Rightarrow> outcome" where
  "traffic_loop_v4 cfg col [] = ([], None)"
| "traffic_loop_v4 cfg col (line # rest) =
     (case parse_line_v4 line of
        Inl e \<Rightarrow> ([], Some e)
      | Inr (iface, stats) \<Rightarrow>
          if excluded cfg iface then traffic_loop_v4 cfg col rest
          else and_then (traffic_entry_v4 cfg col iface stats) (traffic_loop_v4 cfg col rest))"

definition stat_lines_v4 :: "string \<Rightarrow> string list" where
  \<comment> \<open>\<^verbatim>\<open>[l.strip() for l in f.readlines()[2:] if l.strip()]\<close>\<close>
  "stat_lines_v4 text = filter (\<lambda>l. l \<noteq> []) (map strip (drop 2 (readlines text)))"

definition display_traffic_stats_v4 :: "config \<Rightarrow> colors \<Rightarrow> host \<Rightarrow> outcome" where
  "display_traffic_stats_v4 cfg col h =
     (if \<not> path_exists h (PROC_NET_DEV cfg)
      then ([RED col @ ''Error: '' @ PROC_NET_DEV cfg @ '' not found'' @ RESET col], None)
      else
        except_Exception (\<lambda>e. RED col @ ''Error reading stats: '' @ msg e @ RESET col)
          (case read_file h (PROC_NET_DEV cfg) of
             Inl e \<Rightarrow> ([], Some e)
           | Inr text \<Rightarrow>
               and_then ([GREY col @ [NL] @ ''Traffic Statistics:'' @ RESET col], None)
                 (traffic_loop_v4 cfg col (stat_lines_v4 text))))"

text \<open>
  \<^verbatim>\<open>main\<close> (138-154): the printed lines and the exit status of the process, 0 when
  \<^verbatim>\<open>main\<close> returns. Every class kept in \<open>exn_class\<close> other than \<open>KeyboardInterrupt\<close>
  derives from \<^verbatim>\<open>Exception\<close>, so the two handlers cover every exception of the model.
\<close>

definition starts_with :: "string \<Rightarrow> string \<Rightarrow> bool" where
  "starts_with s prefix = (take (length prefix) s = prefix)"

definition main_v4 :: "config \<Rightarrow> host \<Rightarrow> string list \<times> int" where
  "main_v4 cfg h =
     (if \<not> starts_with (platform h) ''linux''
      then ([RED Colors @ ''Error: Linux-only script'' @ RESET Colors], 1)
      else
        let col = (if \<not> COLOR_OUTPUT cfg then disable Colors else Colors)
        in case and_then (display_network_info_v4 cfg col h)
                  (display_traffic_stats_v4 cfg col h) of
             (out, None) \<Rightarrow> (out, 0)
           | (out, Some e) \<Rightarrow>
               if cls e = KeyboardInterrupt
               then (out @ [[NL] @ RED col @ ''Interrupted'' @ RESET col], 130)
               else (out @ [RED col @ ''Critical error: '' @ msg e @ RESET col], 1))"

section \<open>The device-control reply\<close>

text \<open>
  What Linux answers to \<^verbatim>\<open>SIOCGIFMTU\<close> on a little-endian host: \<^verbatim>\<open>struct ifreq\<close> keeps the
  name in bytes 0-15 and the C \<^verbatim>\<open>int\<close> \<^verbatim>\<open>ifr_mtu\<close> in bytes 16-19, least significant byte
  first; \<^verbatim>\<open>fcntl.ioctl\<close> hands back as many bytes as the argument had.
\<close>

definition le_bytes32 :: "32 word \<Rightarrow> byte list" where
  "le_bytes32 w = [ucast w, ucast (drop_bit 8 w), ucast (drop_bit 16 w), ucast (drop_bit 24 w)]"

definition ifreq_mtu_reply :: "32 word \<Rightarrow> byte list \<Rightarrow> byte list" where
  "ifreq_mtu_reply mtu arg = take (length arg) (take 16 arg @ le_bytes32 mtu @ drop 20 arg)"



section \<open>Sample inputs\<close>



text \<open>
  A host with two interfaces, eth0 and wlan0, both with an IPv4 address, an MTU of 1500
  answered by the device-control query, and a statistics table that lists both.
\<close>

definition example_stats :: string where
  "example_stats =
     ''Inter-|  Receive...'' @ [NL] @ '' face |bytes ...'' @ [NL]
     @ ''  eth0: 100 0 0 0 0 0 0 0 200 0 0 0 0 0 0 0'' @ [NL]
     @ '' wlan0: 4096 0 0 0 0 0 0 0 1536 0 0 0 0 0 0 0'' @ [NL]"

definition example_host :: host where
  "example_host =
     \<lparr>platform = ''linux'',
      interfaces = Inr [''eth0'', ''wlan0''],
      ifaddresses = (\<lambda>i.
        if i = ''eth0''
        then Inr [AF_INET \<mapsto> [[''addr'' \<mapsto> ''192.168.1.10'', ''netmask'' \<mapsto> ''255.255.255.0'',
                                ''broadcast'' \<mapsto> ''192.168.1.255'']]]
        else if i = ''wlan0''
        then Inr [AF_INET \<mapsto> [[''addr'' \<mapsto> ''10.0.0.7'', ''netmask'' \<mapsto> ''255.0.0.0'',
                                ''broadcast'' \<mapsto> ''10.255.255.255'']]]
        else Inl (Exn ValueError ''You must specify a valid interface name.'')),
      ioctl = (\<lambda>request arg. Inr (ifreq_mtu_reply 1500 arg)),
      path_exists = (\<lambda>p. p = ''/proc/net/dev''),
      read_file = (\<lambda>p.
        if p = ''/proc/net/dev'' then Inr example_stats
        else Inl (Exn OSError ''[Errno 2] No such file or directory''))\<rparr>"

text \<open>
  A host on which every query fails: no interface list, no addresses, the device-control
  query and every file read raise \<^verbatim>\<open>OSError\<close>, and no path exists.
\<close>

definition failing_host :: host where
  "failing_host =
     \<lparr>platform = ''linux'',
      interfaces = Inl (Exn OSError ''[Errno 24] Too many open files''),
      ifaddresses = (\<lambda>i. Inr Map.empty),
      ioctl = (\<lambda>request arg. Inl (Exn OSError ''[Errno 19] No such device'')),
      path_exists = (\<lambda>p. False),
      read_file = (\<lambda>p. Inl (Exn OSError ''[Errno 2] No such file or directory''))\<rparr>"


section \<open>Properties of the byte formatter\<close>

lemma floor_rat_numeral: "\<lfloor>numeral a / numeral b :: rat\<rfloor> = numeral a div numeral b"
  using floor_divide_of_int_eq [of "numeral a" "numeral b", where ?'a = rat] by simp

lemmas format_bytes_eval =
  format_bytes_def format_bytes_units_def py_float_def bit_len.simps scale_loop.simps
  units_def format_1f_def round_half_even_def str_nat.simps digit_char_def Let_def
  floor_rat_numeral

lemma is_digit_digit_char: "is_digit (digit_char d)"
proof -
  have "d mod 10 < length ''0123456789''" by simp
  then show ?thesis unfolding is_digit_def digit_char_def by (rule nth_mem)
qed

lemma str_nat_digits: "list_all is_digit (str_nat n) \<and> str_nat n \<noteq> []"
proof (induction n rule: str_nat.induct)
  case (1 n)
  show ?case
  proof (cases "n < 10")
    case True
    then show ?thesis by (simp add: str_nat.simps [of n] is_digit_digit_char)
  next
    case False
    with 1 show ?thesis by (simp add: str_nat.simps [of n] is_digit_digit_char)
  qed
qed

lemma round_half_even_upper: "of_int (round_half_even q) \<le> q + 1 / 2"
proof -
  define f where "f = \<lfloor>q\<rfloor>"
  have "of_int f \<le> q" "q < of_int f + 1" unfolding f_def by linarith+
  then show ?thesis
    unfolding round_half_even_def Let_def f_def [symmetric] by auto
qed

lemma round_half_even_nonneg: "0 \<le> q \<Longrightarrow> 0 \<le> round_half_even q"
  by (auto simp: round_half_even_def Let_def)

lemma bit_len_bound: "n < 2 ^ bit_len n"
proof (induction n rule: bit_len.induct)
  case (1 n)
  show ?case
  proof (cases "n = 0")
    case True
    then show ?thesis by (simp add: bit_len.simps [of n])
  next
    case False
    with 1 have "n div 2 < 2 ^ bit_len (n div 2)" by simp
    then have "n < 2 * 2 ^ bit_len (n div 2)" by linarith
    with False show ?thesis by (simp add: bit_len.simps [of n])
  qed
qed

lemma bit_len_le: "n < 2 ^ k \<Longrightarrow> bit_len n \<le> k"
proof (induction n arbitrary: k rule: bit_len.induct)
  case (1 n)
  show ?case
  proof (cases "n = 0")
    case True
    then show ?thesis by (simp add: bit_len.simps [of 0])
  next
    case False
    with "1.prems" obtain j where k: "k = Suc j" by (cases k) auto
    with "1.prems" have "n div 2 < 2 ^ j" by auto
    with 1 False have "bit_len (n div 2) \<le> j" by simp
    with False k show ?thesis by (simp add: bit_len.simps [of n])
  qed
qed

lemma rounded_below:
  fixes a :: nat
  assumes a: "int a < 2 ^ K - 2 ^ (K - 54)" and K: "54 \<le> K" and e: "53 < bit_len a"
  shows "round_half_even (Fract (int a) (2 ^ (bit_len a - 53))) * 2 ^ (bit_len a - 53) < 2 ^ K"
proof -
  define sh where "sh = bit_len a - 53"
  define m where "m = round_half_even (Fract (int a) (2 ^ sh))"
  from e obtain s where s: "sh = Suc s" unfolding sh_def by (cases "bit_len a - 53") auto
  have "int a < 2 ^ K" using a by (smt (verit) zero_less_power)
  then have "a < 2 ^ K" by (metis of_nat_less_iff of_nat_numeral of_nat_power)
  then have "bit_len a \<le> K" by (rule bit_len_le)
  then have sK: "s \<le> K - 54" using s sh_def by linarith
  have q: "Fract (int a) (2 ^ sh) = of_int (int a) / (2 ^ sh :: rat)"
    by (simp add: Fract_of_int_quotient)
  have "of_int m \<le> of_int (int a) / (2 ^ sh :: rat) + 1 / 2"
    unfolding m_def q by (rule round_half_even_upper)
  then have "of_int m * (2 ^ sh :: rat) \<le> (of_int (int a) / 2 ^ sh + 1 / 2) * 2 ^ sh"
    by (rule mult_right_mono) simp
  also have "\<dots> = of_int (int a) + 2 ^ s"
    by (simp add: s field_simps)
  finally have "of_int (m * 2 ^ sh) \<le> (of_int (int a + 2 ^ s) :: rat)" by simp
  then have "m * 2 ^ sh \<le> int a + 2 ^ s" by (simp only: of_int_le_iff)
  moreover have "(2::int) ^ s \<le> 2 ^ (K - 54)" using sK by (simp add: power_increasing)
  ultimately show ?thesis using a unfolding m_def sh_def by linarith
qed


lemma py_float_in_range:
  assumes "0 \<le> b" and "b < 2 ^ 1024 - 2 ^ 970"
  shows "\<exists>x. py_float b = Inr x \<and> 0 \<le> x"
proof (cases "bit_len (nat \<bar>b\<bar>) \<le> 53")
  case True
  with assms(1) show ?thesis by (simp add: py_float_def Let_def)
next
  case False
  define a where "a = nat \<bar>b\<bar>"
  have ab: "int a = b" using assms(1) by (simp add: a_def)
  have "int a < 2 ^ 1024 - 2 ^ (1024 - 54)" using assms(2) ab by simp
  moreover have "53 < bit_len a" using False by (simp add: a_def)
  ultimately have v: "round_half_even (Fract (int a) (2 ^ (bit_len a - 53))) * 2 ^ (bit_len a - 53) < 2 ^ 1024"
    by (intro rounded_below) simp_all
  have "0 \<le> Fract (int a) (2 ^ (bit_len a - 53))"
    by (simp add: zero_le_Fract_iff)
  then have m: "0 \<le> round_half_even (Fract (int a) (2 ^ (bit_len a - 53)))"
    by (rule round_half_even_nonneg)
  have "0 \<le> sgn b" using assms(1) by (simp add: sgn_if)
  with m have "0 \<le> sgn b * (round_half_even (Fract (int a) (2 ^ (bit_len a - 53))) * 2 ^ (bit_len a - 53))"
    by simp
  then have "(0::rat) \<le> of_int (sgn b * (round_half_even (Fract (int a) (2 ^ (bit_len a - 53))) * 2 ^ (bit_len a - 53)))"
    by (simp only: of_int_0_le_iff)
  with False v show ?thesis
    unfolding py_float_def Let_def a_def [symmetric] by (simp del: power_numeral)
qed

lemma scale_loop_inv:
  "0 \<le> x \<Longrightarrow> i < length us \<Longrightarrow> scale_loop us x i = (y, j) \<Longrightarrow> 0 \<le> y \<and> j < length us"
proof (induction us x i rule: scale_loop.induct)
  case (1 us readable_size unit_index)
  show ?case
  proof (cases "1024 \<le> readable_size \<and> int unit_index < int (length us) - 1")
    case True
    with "1.prems" have "scale_loop us (readable_size / 1024) (unit_index + 1) = (y, j)"
      by (simp add: scale_loop.simps [of us readable_size unit_index])
    moreover have "0 \<le> readable_size / 1024" using "1.prems" by simp
    moreover have "unit_index + 1 < length us" using True by linarith
    ultimately show ?thesis using "1.IH" True by blast
  next
    case False
    with "1.prems" show ?thesis
      by (simp add: scale_loop.simps [of us readable_size unit_index])
  qed
qed

lemma format_1f_shape:
  assumes "0 \<le> x"
  shows "\<exists>ds d. format_1f x = ds @ ''.'' @ [d] \<and> ds \<noteq> [] \<and> list_all is_digit ds \<and> is_digit d"
proof -
  define t where "t = nat (round_half_even (\<bar>x\<bar> * 10))"
  have "format_1f x = str_nat (t div 10) @ ''.'' @ [digit_char (t mod 10)]"
    using assms by (simp add: format_1f_def Let_def t_def)
  then show ?thesis using str_nat_digits [of "t div 10"] is_digit_digit_char by blast
qed

lemma format_bytes_digits_unit:
  assumes "0 \<le> b" and "b < 2 ^ 1024 - 2 ^ 970"
  shows "\<exists>ds d u. format_bytes b = Inr (ds @ ''.'' @ [d] @ '' '' @ u)
           \<and> ds \<noteq> [] \<and> list_all is_digit ds \<and> is_digit d \<and> u \<in> set units"
proof -
  from py_float_in_range [OF assms] obtain x where x: "py_float b = Inr x" "0 \<le> x" by blast
  obtain y j where l: "scale_loop units x 0 = (y, j)" by (cases "scale_loop units x 0")
  have "0 < length units" by (simp add: units_def)
  with x(2) l have yj: "0 \<le> y" "j < length units" using scale_loop_inv by blast+
  from format_1f_shape [OF yj(1)] obtain ds d where
    f: "format_1f y = ds @ ''.'' @ [d]" "ds \<noteq> []" "list_all is_digit ds" "is_digit d" by blast
  have "format_bytes b = Inr (ds @ ''.'' @ [d] @ '' '' @ units ! j)"
    using x(1) l yj(2) f(1) by (simp add: format_bytes_def format_bytes_units_def)
  moreover have "units ! j \<in> set units" using yj(2) by (rule nth_mem)
  ultimately show ?thesis using f by blast
qed


lemma bit_len_pow2: "bit_len (2 ^ k) = Suc k"
proof (induction k)
  case 0
  show ?case by (simp add: bit_len.simps [of "Suc 0"] bit_len.simps [of 0])
next
  case (Suc k)
  have "bit_len (2 ^ Suc k) = Suc (bit_len (2 ^ Suc k div 2))"
    by (subst bit_len.simps) simp
  then show ?case using Suc by simp
qed

lemma round_half_even_of_int: "round_half_even (of_int k) = k"
  by (simp add: round_half_even_def)

lemma py_float_pow2_overflow: "py_float (2 ^ 1024) = Inl overflow_error"
proof -
  have a: "nat \<bar>2 ^ 1024 :: int\<bar> = 2 ^ 1024"
    by (simp add: nat_power_eq del: power_numeral)
  have e: "bit_len (2 ^ 1024) = 1025" by (simp only: bit_len_pow2)
  have "Fract (int (2 ^ 1024)) (2 ^ (1025 - 53)) = of_int (2 ^ 52)"
  proof -
    have "Fract (int (2 ^ 1024)) (2 ^ (1025 - 53)) = (2::rat) ^ 1024 / 2 ^ 972"
      by (simp add: Fract_of_int_quotient del: power_numeral)
    also have "\<dots> = (2::rat) ^ (1024 - 972)"
      by (rule power_diff [symmetric]) simp_all
    finally show ?thesis by (simp del: power_numeral)
  qed
  then have m: "round_half_even (Fract (int (2 ^ 1024)) (2 ^ (1025 - 53))) = 2 ^ 52"
    by (simp only: round_half_even_of_int)
  have v: "(2::int) ^ 52 * 2 ^ (1025 - 53) = 2 ^ 1024" by (simp only: power_add [symmetric]) simp
  show ?thesis
    unfolding py_float_def Let_def a e m v by simp
qed

lemma bit_len_lower: "n \<noteq> 0 \<Longrightarrow> 2 ^ (bit_len n - 1) \<le> n"
proof (induction n rule: bit_len.induct)
  case (1 n)
  show ?case
  proof (cases "n div 2 = 0")
    case True
    with "1.prems" have "n = 1" by (simp add: div_eq_0_iff) 
    then show ?thesis by (simp add: bit_len.simps [of "Suc 0"] bit_len.simps [of 0])
  next
    case False
    with 1 have ih: "2 ^ (bit_len (n div 2) - 1) \<le> n div 2" by simp
    from False have pos: "0 < bit_len (n div 2)" by (simp add: bit_len.simps [of "n div 2"])
    have "bit_len n = Suc (bit_len (n div 2))" using "1.prems" by (simp add: bit_len.simps [of n])
    then have "(2::nat) ^ (bit_len n - 1) = 2 * 2 ^ (bit_len (n div 2) - 1)"
      using pos by (cases "bit_len (n div 2)") simp_all
    also have "\<dots> \<le> 2 * (n div 2)" using ih by simp
    also have "\<dots> \<le> n" by simp
    finally show ?thesis .
  qed
qed

lemma round_half_even_lower: "q - 1 / 2 \<le> of_int (round_half_even q)"
proof -
  define f where "f = \<lfloor>q\<rfloor>"
  have "of_int f \<le> q" "q < of_int f + 1" unfolding f_def by linarith+
  then show ?thesis
    unfolding round_half_even_def Let_def f_def [symmetric] by auto
qed

lemma rounded_above:
  fixes a :: nat
  assumes e: "53 < bit_len a"
  shows "2 ^ 52 \<le> round_half_even (Fract (int a) (2 ^ (bit_len a - 53))) * 2 ^ (bit_len a - 53)"
proof -
  define sh where "sh = bit_len a - 53"
  define m where "m = round_half_even (Fract (int a) (2 ^ sh))"
  from e obtain s where s: "sh = Suc s" unfolding sh_def by (cases "bit_len a - 53") auto
  have a0: "a \<noteq> 0"
  proof
    assume "a = 0"
    then have "bit_len a = 0" by (simp add: bit_len.simps [of 0])
    with e show False by simp
  qed
  have "bit_len a - 1 = 52 + sh" using e sh_def by linarith
  with bit_len_lower [OF a0] have lo: "2 ^ (52 + sh) \<le> a" by simp
  have q: "Fract (int a) (2 ^ sh) = of_int (int a) / (2 ^ sh :: rat)"
    by (simp add: Fract_of_int_quotient)
  have r: "of_int (int a) / (2 ^ sh :: rat) - 1 / 2 \<le> of_int m"
    unfolding m_def q by (rule round_half_even_lower)
  have "of_int (int a) - 2 ^ s = (of_int (int a) / 2 ^ sh - 1 / 2) * (2 ^ sh :: rat)"
    by (simp add: s field_simps)
  also have "\<dots> \<le> of_int m * (2 ^ sh :: rat)"
    using r by (rule mult_right_mono) simp
  finally have "(of_int (int a - 2 ^ s) :: rat) \<le> of_int (m * 2 ^ sh)" by simp
  then have v: "int a - 2 ^ s \<le> m * 2 ^ sh" by (simp only: of_int_le_iff)
  define X where "X = (2::int) ^ (52 + sh)"
  define P where "P = (2::int) ^ s"
  define V where "V = m * 2 ^ sh"
  have c: "X \<le> int a"
    unfolding X_def using lo by (metis of_nat_le_iff of_nat_numeral of_nat_power)
  have "X = 2 ^ 52 * (2 * P)" by (simp add: X_def P_def s power_add)
  moreover have "1 \<le> P" by (simp add: P_def)
  ultimately have x: "2 ^ 52 \<le> X - P" by simp
  have "int a - P \<le> V" using v by (simp add: P_def V_def)
  with c x have "2 ^ 52 \<le> V" by linarith
  then show ?thesis by (simp only: V_def m_def sh_def)
qed


lemma py_float_large:
  assumes "b < 2 ^ 1024 - 2 ^ 970" and "1024 ^ 4 \<le> b"
  shows "\<exists>x. py_float b = Inr x \<and> 1024 ^ 4 \<le> x"
proof (cases "bit_len (nat \<bar>b\<bar>) \<le> 53")
  case True
  have "(1024::rat) ^ 4 \<le> of_int b" using assms(2) by (metis of_int_le_iff of_int_numeral of_int_power)
  with True show ?thesis by (simp add: py_float_def Let_def)
next
  case False
  define a where "a = nat \<bar>b\<bar>"
  have b0: "0 < b" using assms(2) by simp
  have ab: "int a = b" using b0 by (simp add: a_def)
  have e: "53 < bit_len a" using False by (simp add: a_def)
  define v where "v = round_half_even (Fract (int a) (2 ^ (bit_len a - 53))) * 2 ^ (bit_len a - 53)"
  have "int a < 2 ^ 1024 - 2 ^ (1024 - 54)" using assms(1) ab by simp
  then have hi: "v < 2 ^ 1024" unfolding v_def using e by (intro rounded_below) simp_all
  have lo: "2 ^ 52 \<le> v" unfolding v_def using e by (rule rounded_above)
  have "(1024::int) ^ 4 \<le> 2 ^ 52" by simp
  with lo have "(1024::int) ^ 4 \<le> v" by linarith
  then have "(1024::rat) ^ 4 \<le> of_int v" by (metis of_int_le_iff of_int_numeral of_int_power)
  moreover have "py_float b = Inr (of_int v)"
    using False hi b0 unfolding py_float_def Let_def a_def [symmetric] v_def [symmetric]
    by (simp del: power_numeral)
  ultimately show ?thesis by blast
qed

lemma scale_loop_step:
  "1024 \<le> x \<Longrightarrow> i < 4 \<Longrightarrow> scale_loop units x i = scale_loop units (x / 1024) (Suc i)"
  by (subst scale_loop.simps) (simp add: units_def)

lemma scale_loop_stop: "scale_loop units x (Suc (Suc (Suc (Suc 0)))) = (x, 4)"
  by (subst scale_loop.simps) (simp add: units_def)

lemma scale_loop_top:
  assumes "1024 ^ 4 \<le> x"
  shows "scale_loop units x 0 = (x / 1024 ^ 4, 4)"
proof -
  have h: "1024 \<le> x" "1024 \<le> x / 1024" "1024 \<le> x / 1024 / 1024"
    "1024 \<le> x / 1024 / 1024 / 1024"
    using assms by simp_all
  have "scale_loop units x 0 = scale_loop units (x / 1024) (Suc 0)"
    by (rule scale_loop_step [OF h(1)]) simp
  also have "\<dots> = scale_loop units (x / 1024 / 1024) (Suc (Suc 0))"
    by (rule scale_loop_step [OF h(2)]) simp
  also have "\<dots> = scale_loop units (x / 1024 / 1024 / 1024) (Suc (Suc (Suc 0)))"
    by (rule scale_loop_step [OF h(3)]) simp
  also have "\<dots> = scale_loop units (x / 1024 / 1024 / 1024 / 1024) (Suc (Suc (Suc (Suc 0))))"
    by (rule scale_loop_step [OF h(4)]) simp
  also have "\<dots> = (x / 1024 / 1024 / 1024 / 1024, 4)" by (rule scale_loop_stop)
  finally show ?thesis by simp
qed

lemma format_bytes_top_unit:
  assumes "b < 2 ^ 1024 - 2 ^ 970" and "1024 ^ 4 \<le> b"
  shows "\<exists>ds d. format_bytes b = Inr (ds @ ''.'' @ [d] @ '' TiB'')"
proof -
  from py_float_large [OF assms] obtain x where x: "py_float b = Inr x" "1024 ^ 4 \<le> x" by blast
  have "0 \<le> x / 1024 ^ 4" using x(2) by simp
  from format_1f_shape [OF this] obtain ds d where "format_1f (x / 1024 ^ 4) = ds @ ''.'' @ [d]"
    by blast
  then have "format_bytes b = Inr (ds @ ''.'' @ [d] @ '' TiB'')"
    using x(1) scale_loop_top [OF x(2)]
    by (simp add: format_bytes_def format_bytes_units_def) (simp add: units_def)
  then show ?thesis by blast
qed

lemma format_bytes_below_1024:
  assumes "0 \<le> b" and "b < 1024"
  shows "format_bytes b = Inr (str_nat (nat b) @ ''.0 B'')"
proof -
  have "nat \<bar>b\<bar> < 2 ^ 53" using assms by simp
  then have "bit_len (nat \<bar>b\<bar>) \<le> 53" by (rule bit_len_le)
  then have f: "py_float b = Inr (of_int b)" by (simp add: py_float_def Let_def)
  have "\<not> (1024::rat) \<le> of_int b" using assms(2) by simp
  then have l: "scale_loop units (of_int b) 0 = (of_int b, 0)"
    by (simp add: scale_loop.simps [of units "of_int b" 0])
  have "\<bar>rat_of_int b\<bar> * 10 = of_int (b * 10)" using assms(1) by simp
  then have "round_half_even (\<bar>rat_of_int b\<bar> * 10) = b * 10"
    by (simp only: round_half_even_of_int)
  then have "format_1f (of_int b) = str_nat (nat b) @ ''.0''"
    using assms(1) by (simp add: format_1f_def Let_def nat_mult_distrib digit_char_def)
  then show ?thesis
    using f l by (simp add: format_bytes_def format_bytes_units_def units_def)
qed

text \<open>
  C1 (amended). \<^verbatim>\<open>float(b)\<close> raises \<^verbatim>\<open>OverflowError\<close> from \<open>2 ^ 1024 - 2 ^ 970\<close> on, so
  the shape holds for the non-negative integers below that bound: \<open>format_bytes b\<close> is
  a non-empty run of decimal digits, a point, exactly one digit, a space and a unit of the
  ladder B, KiB, MiB, GiB, TiB. Below 1024 the result is \<open>b\<close> itself with \<open>.0 B\<close>; from
  \<open>1024 ^ 4\<close> on the unit is TiB, however large the value. The six values of the claim are
  as stated. With the module's \<^verbatim>\<open>config\<close>, \<^verbatim>\<open>format_bytes\<close> of \<^verbatim>\<open>if_v4.py\<close> is the same
  function.
\<close>

theorem format_bytes_shape:
  assumes "0 \<le> b" and "b < 2 ^ 1024 - 2 ^ 970"
  shows "(\<exists>ds d u. format_bytes b = Inr (ds @ ''.'' @ [d] @ '' '' @ u)
            \<and> ds \<noteq> [] \<and> list_all is_digit ds \<and> is_digit d \<and> u \<in> set units)
         \<and> (b < 1024 \<longrightarrow> format_bytes b = Inr (str_nat (nat b) @ ''.0 B''))
         \<and> (1024 ^ 4 \<le> b \<longrightarrow> (\<exists>ds d. format_bytes b = Inr (ds @ ''.'' @ [d] @ '' TiB'')))
         \<and> format_bytes 0 = Inr ''0.0 B''
         \<and> format_bytes 1023 = Inr ''1023.0 B''
         \<and> format_bytes 1024 = Inr ''1.0 KiB''
         \<and> format_bytes 1536 = Inr ''1.5 KiB''
         \<and> format_bytes (1024 ^ 4) = Inr ''1.0 TiB''
         \<and> format_bytes (1024 ^ 5) = Inr ''1024.0 TiB''
         \<and> format_bytes_v4 config b = format_bytes b"
proof -
  have "format_bytes_v4 config b = format_bytes b"
    by (simp add: format_bytes_v4_def format_bytes_def config_def units_def)
  moreover have "b < 1024 \<longrightarrow> format_bytes b = Inr (str_nat (nat b) @ ''.0 B'')"
    using format_bytes_below_1024 [OF assms(1)] by blast
  moreover have "1024 ^ 4 \<le> b \<longrightarrow> (\<exists>ds d. format_bytes b = Inr (ds @ ''.'' @ [d] @ '' TiB''))"
    using format_bytes_top_unit [OF assms(2)] by blast
  moreover have "format_bytes 0 = Inr ''0.0 B''" by (simp add: format_bytes_eval)
  moreover have "format_bytes 1023 = Inr ''1023.0 B''" by (simp add: format_bytes_eval)
  moreover have "format_bytes 1024 = Inr ''1.0 KiB''" by (simp add: format_bytes_eval)
  moreover have "format_bytes 1536 = Inr ''1.5 KiB''" by (simp add: format_bytes_eval)
  moreover have "format_bytes (1024 ^ 4) = Inr ''1.0 TiB''" by (simp add: format_bytes_eval)
  moreover have "format_bytes (1024 ^ 5) = Inr ''1024.0 TiB''" by (simp add: format_bytes_eval)
  ultimately show ?thesis using format_bytes_digits_unit [OF assms] by blast
qed

theorem format_bytes_shape_witness:
  "(0::int) \<le> 1127 \<and> (1127::int) < 2 ^ 1024 - 2 ^ 970 \<and> format_bytes 1127 = Inr ''1.1 KiB''
   \<and> (\<exists>ds d u. format_bytes 1127 = Inr (ds @ ''.'' @ [d] @ '' '' @ u)
            \<and> ds \<noteq> [] \<and> list_all is_digit ds \<and> is_digit d \<and> u \<in> set units)
   \<and> (0::int) \<le> 512 \<and> (512::int) < 2 ^ 1024 - 2 ^ 970 \<and> (512::int) < 1024
   \<and> format_bytes 512 = Inr (str_nat (nat 512) @ ''.0 B'')
   \<and> (0::int) \<le> 1024 ^ 6 \<and> (1024::int) ^ 6 < 2 ^ 1024 - 2 ^ 970 \<and> (1024::int) ^ 4 \<le> 1024 ^ 6
   \<and> (\<exists>ds d. format_bytes (1024 ^ 6) = Inr (ds @ ''.'' @ [d] @ '' TiB''))"
proof -
  have h1: "(0::int) \<le> 1127" by simp
  have h2: "(1127::int) < 2 ^ 1024 - 2 ^ 970" by simp
  have v: "format_bytes 1127 = Inr ''1.1 KiB''" by (simp add: format_bytes_eval)
  have k1: "(0::int) \<le> 512" by simp
  have k2: "(512::int) < 2 ^ 1024 - 2 ^ 970" by simp
  have k3: "(512::int) < 1024" by simp
  have t1: "(0::int) \<le> 1024 ^ 6" by simp
  have t2: "(1024::int) ^ 6 < 2 ^ 1024 - 2 ^ 970" by simp
  have t3: "(1024::int) ^ 4 \<le> 1024 ^ 6" by simp
  from format_bytes_shape [OF h1 h2]
  have a: "\<exists>ds d u. format_bytes 1127 = Inr (ds @ ''.'' @ [d] @ '' '' @ u)
            \<and> ds \<noteq> [] \<and> list_all is_digit ds \<and> is_digit d \<and> u \<in> set units"
    by blast
  from format_bytes_shape [OF k1 k2] k3
  have b: "format_bytes 512 = Inr (str_nat (nat 512) @ ''.0 B'')" by blast
  from format_bytes_shape [OF t1 t2] t3
  have c: "\<exists>ds d. format_bytes (1024 ^ 6) = Inr (ds @ ''.'' @ [d] @ '' TiB'')" by blast
  from h1 h2 v a k1 k2 k3 b t1 t2 t3 c show ?thesis by (intro conjI)
qed

text \<open>
  C1 as stated, for every non-negative integer, fails at \<open>2 ^ 1024\<close>: the conversion to
  float raises and no string is returned.
\<close>

theorem format_bytes_overflow_counterexample:
  "(0::int) \<le> 2 ^ 1024 \<and> format_bytes (2 ^ 1024) = Inl overflow_error"
  by (simp add: format_bytes_def format_bytes_units_def py_float_pow2_overflow
      del: power_numeral)


section \<open>Properties of the text functions\<close>



lemma split_acc_none: "sep \<notin> set a \<Longrightarrow> split_acc sep cur a = [cur @ a]"
  by (induction a arbitrary: cur) auto

lemma split_acc_first:
  "sep \<notin> set a \<Longrightarrow> split_acc sep cur (a @ sep # b) = (cur @ a) # split_acc sep [] b"
  by (induction a arbitrary: cur) auto

lemma split_on_two:
  "sep \<notin> set a \<Longrightarrow> sep \<notin> set b \<Longrightarrow> split_on sep (a @ sep # b) = [a, b]"
  by (simp add: split_on_def split_acc_first split_acc_none)

lemma split_on_no_sep: "sep \<notin> set a \<Longrightarrow> split_on sep a = [a]"
  by (simp add: split_on_def split_acc_none)





lemma strip_around:
  assumes "\<not> is_space c"
  shows "strip (a @ c # b) = dropWhile is_space a @ c # rev (dropWhile is_space (rev b))"
proof -
  have l: "dropWhile is_space (a @ c # b) = dropWhile is_space a @ c # b"
    using assms by (simp add: dropWhile_append)
  have "dropWhile is_space (rev b @ c # rev (dropWhile is_space a))
          = dropWhile is_space (rev b) @ c # rev (dropWhile is_space a)"
    using assms by (simp add: dropWhile_append)
  then show ?thesis by (simp add: strip_def l)
qed


lemma colon_not_space: "\<not> is_space CHR '':''"
  by (simp add: is_space_def)

lemma strip_nonempty: "\<not> is_space c \<Longrightarrow> strip (a @ c # b) \<noteq> []"
  by (simp add: strip_around)






lemmas text_eval =
  readlines_def NL_def strip_def is_space_def split_on_def split_ws_def py_int_def
  max_str_digits_def
  is_digit_def digit_val_def Let_def

section \<open>The statistics parser\<close>

lemma py_int_too_long:
  assumes "max_str_digits < length (filter is_digit (strip s))"
  shows "py_int s = None"
  using assms by (cases "strip s") (simp_all add: py_int_def)

lemma py_int_4301_zeros: "py_int (replicate 4301 CHR ''0'') = None"
proof -
  have "strip (replicate 4301 CHR ''0'') = replicate 4301 CHR ''0''"
    by (simp add: strip_def is_space_def dropWhile_append3 flip: replicate_append_same)
  then show ?thesis
    by (intro py_int_too_long) (simp add: max_str_digits_def is_digit_def)
qed





section \<open>The traffic loop\<close>

lemma and_then_nothing: "and_then ([], None) q = q"
  by (simp add: and_then_def)

lemma traffic_loop_v2_silent:
  "traffic_line_v2 l = ([], None) \<Longrightarrow> traffic_loop_v2 (pre @ l # post) = traffic_loop_v2 (pre @ post)"
  by (induction pre) (simp_all add: and_then_nothing)

lemma parse_line_v2_no_colon: "CHR '':'' \<notin> set l \<Longrightarrow> parse_line_v2 l = Skip"
  by (simp add: parse_line_v2_def split_on_no_sep)

lemma parse_line_v2_few:
  assumes "CHR '':'' \<notin> set nm" and "CHR '':'' \<notin> set r" and "length (split_ws r) < 9"
  shows "parse_line_v2 (nm @ '':'' @ r) = Skip"
proof -
  have "split_on CHR '':'' (nm @ '':'' @ r) = [nm, r]"
    using split_on_two [OF assms(1,2)] by simp
  then show ?thesis using assms(3) by (simp add: parse_line_v2_def)
qed

lemma parse_line_v2_non_numeric:
  assumes "CHR '':'' \<notin> set nm" and "CHR '':'' \<notin> set r" and "9 \<le> length (split_ws r)"
    and "py_int (split_ws r ! 0) = None \<or> py_int (split_ws r ! 8) = None"
  shows "parse_line_v2 (nm @ '':'' @ r) = Invalid (strip nm)"
proof -
  have "strip (nm @ '':'' @ r) \<noteq> []"
    using strip_nonempty [OF colon_not_space, of nm r] by simp
  moreover have "split_on CHR '':'' (nm @ '':'' @ r) = [nm, r]"
    using split_on_two [OF assms(1,2)] by simp
  ultimately show ?thesis using assms(3,4)
    by (auto simp: parse_line_v2_def Let_def split: option.splits)
qed

lemma parse_line_v4_colon:
  assumes "CHR '':'' \<notin> set nm" and "CHR '':'' \<notin> set r"
  shows "parse_line_v4 (nm @ '':'' @ r) = Inr (strip nm, split_ws r)"
  using split_on_two [OF assms] by (simp add: parse_line_v4_def)

lemma split_acc_nonempty: "split_acc sep cur s \<noteq> []"
  by (induction s arbitrary: cur) auto

lemma parse_line_v4_name:
  assumes "CHR '':'' \<notin> set a"
  shows "\<exists>stats. parse_line_v4 (a @ '':'' @ b) = Inr (strip a, stats)"
  using assms
  by (simp add: parse_line_v4_def split_on_def split_acc_first split_acc_nonempty Let_def)

lemma parse_counters_v4_malformed:
  assumes "length stats < 9 \<or> py_int (stats ! 0) = None \<or> py_int (stats ! 8) = None"
  shows "\<exists>e. parse_counters_v4 stats = Inl e \<and> (cls e = IndexError \<or> cls e = ValueError)"
  using assms
  by (auto simp: parse_counters_v4_def index_error_def value_error_def split: option.splits)

lemma traffic_entry_v4_malformed:
  assumes "length stats < 9 \<or> py_int (stats ! 0) = None \<or> py_int (stats ! 8) = None"
  shows "traffic_entry_v4 cfg col iface stats = ([], None)"
proof -
  from parse_counters_v4_malformed [OF assms] obtain e where
    "parse_counters_v4 stats = Inl e" "cls e = IndexError \<or> cls e = ValueError" by blast
  then show ?thesis by (auto simp: traffic_entry_v4_def)
qed

lemma traffic_loop_v4_silent:
  assumes "parse_line_v4 l = Inr (iface, stats)"
    and "excluded cfg iface \<or> traffic_entry_v4 cfg col iface stats = ([], None)"
  shows "traffic_loop_v4 cfg col (pre @ l # post) = traffic_loop_v4 cfg col (pre @ post)"
  using assms by (induction pre) (auto simp: and_then_nothing split: sum.splits)

text \<open>
  In \<^verbatim>\<open>if_v4.py\<close> a line without a colon ends the loop: \<^verbatim>\<open>line.split(":")[1]\<close> on line 121
  raises \<^verbatim>\<open>IndexError\<close> before the inner \<^verbatim>\<open>try\<close> that would catch it, and the lines
  after it are not read.
\<close>

lemma traffic_loop_v4_no_colon:
  "CHR '':'' \<notin> set l \<Longrightarrow> traffic_loop_v4 cfg col (l # post) = ([], Some index_error)"
  by (simp add: parse_line_v4_def split_on_no_sep)

lemma format_bytes_v4_units: "BYTE_UNITS cfg = units \<Longrightarrow> format_bytes_v4 cfg = format_bytes"
  by (simp add: format_bytes_v4_def format_bytes_def fun_eq_iff)

lemmas traffic_v4_eval =
  traffic_entry_v4_def print_entry_v4_def rx_human_def tx_human_def format_bytes_v4_def
  update_def InterfaceTraffic_init_def excluded_def config_def and_then_def
  parse_line_v4_def parse_counters_v4_def

lemmas traffic_v2_eval =
  traffic_line_v2_def parse_line_v2_def render_entry_v2_def and_then_def

text \<open>
  C3 (amended). \<^verbatim>\<open>if_8v2.py\<close> prints the marker \<open>No traffic\<close> for a counter that is
  exactly 0 and the formatted size for any other, so a zero counter never shows as
  \<open>0.0 B\<close> there. \<^verbatim>\<open>if_v4.py\<close> has no marker: it prints \<^verbatim>\<open>format_bytes\<close> of every
  counter, which for 0 is \<open>0.0 B\<close>.
\<close>

theorem zero_counter_rendering:
  assumes "format_bytes rx = Inr r" and "format_bytes tx = Inr t" and "BYTE_UNITS cfg = units"
  shows "render_entry_v2 iface rx tx =
           ([SEP_COLOR @ ''  '' @ iface @ '':'' @ RESET_COLOR,
             ''    RX: '' @ GREY_COLOR @ (if rx = 0 then ''No traffic'' else r) @ RESET_COLOR,
             ''    TX: '' @ GREY_COLOR @ (if tx = 0 then ''No traffic'' else t) @ RESET_COLOR],
            None)
     \<and> (rx = 0 \<longrightarrow> ''    RX: '' @ GREY_COLOR @ ''0.0 B'' @ RESET_COLOR
                      \<notin> set (fst (render_entry_v2 iface rx tx)))
     \<and> (tx = 0 \<longrightarrow> ''    TX: '' @ GREY_COLOR @ ''0.0 B'' @ RESET_COLOR
                      \<notin> set (fst (render_entry_v2 iface rx tx)))
     \<and> print_entry_v4 cfg col iface (update (InterfaceTraffic_init iface) rx tx) =
           ([SEPIA col @ ''  '' @ iface @ '':'' @ RESET col,
             ''    RX: '' @ GREY col @ r @ RESET col,
             ''    TX: '' @ GREY col @ t @ RESET col], None)
     \<and> format_bytes 0 = Inr ''0.0 B''"
proof -
  have v2: "render_entry_v2 iface rx tx =
           ([SEP_COLOR @ ''  '' @ iface @ '':'' @ RESET_COLOR,
             ''    RX: '' @ GREY_COLOR @ (if rx = 0 then ''No traffic'' else r) @ RESET_COLOR,
             ''    TX: '' @ GREY_COLOR @ (if tx = 0 then ''No traffic'' else t) @ RESET_COLOR],
            None)"
    using assms(1,2) by (simp add: render_entry_v2_def)
  have rx0: "rx = 0 \<longrightarrow> ''    RX: '' @ GREY_COLOR @ ''0.0 B'' @ RESET_COLOR
                      \<notin> set (fst (render_entry_v2 iface rx tx))"
    unfolding v2 by (simp add: SEP_COLOR_def GREY_COLOR_def RESET_COLOR_def)
  have tx0: "tx = 0 \<longrightarrow> ''    TX: '' @ GREY_COLOR @ ''0.0 B'' @ RESET_COLOR
                      \<notin> set (fst (render_entry_v2 iface rx tx))"
    unfolding v2 by (simp add: SEP_COLOR_def GREY_COLOR_def RESET_COLOR_def)
  have v4: "print_entry_v4 cfg col iface (update (InterfaceTraffic_init iface) rx tx) =
           ([SEPIA col @ ''  '' @ iface @ '':'' @ RESET col,
             ''    RX: '' @ GREY col @ r @ RESET col,
             ''    TX: '' @ GREY col @ t @ RESET col], None)"
    using assms(1,2) format_bytes_v4_units [OF assms(3)]
    by (simp add: print_entry_v4_def rx_human_def tx_human_def update_def
        InterfaceTraffic_init_def)
  have z: "format_bytes 0 = Inr ''0.0 B''" by (simp add: format_bytes_eval)
  from v2 rx0 tx0 v4 z show ?thesis by blast
qed

theorem zero_counter_rendering_witness:
  "format_bytes 0 = Inr ''0.0 B'' \<and> format_bytes 1536 = Inr ''1.5 KiB''
   \<and> BYTE_UNITS config = units
   \<and> render_entry_v2 ''eth0'' 0 1536 =
           ([SEP_COLOR @ ''  eth0:'' @ RESET_COLOR,
             ''    RX: '' @ GREY_COLOR @ ''No traffic'' @ RESET_COLOR,
             ''    TX: '' @ GREY_COLOR @ ''1.5 KiB'' @ RESET_COLOR], None)
   \<and> print_entry_v4 config Colors ''eth0'' (update (InterfaceTraffic_init ''eth0'') 0 1536) =
           ([SEPIA Colors @ ''  eth0:'' @ RESET Colors,
             ''    RX: '' @ GREY Colors @ ''0.0 B'' @ RESET Colors,
             ''    TX: '' @ GREY Colors @ ''1.5 KiB'' @ RESET Colors], None)"
proof -
  have h1: "format_bytes 0 = Inr ''0.0 B''" by (simp add: format_bytes_eval)
  have h2: "format_bytes 1536 = Inr ''1.5 KiB''" by (simp add: format_bytes_eval)
  have h3: "BYTE_UNITS config = units" by (simp add: config_def units_def)
  from zero_counter_rendering [OF h1 h2 h3, of "''eth0''" Colors] h1 h2 h3
  show ?thesis by simp
qed

text \<open>
  C3 as stated fails on \<^verbatim>\<open>if_v4.py\<close>: an entry for eth0 with both counters 0 is printed
  with \<open>0.0 B\<close> twice.
\<close>

theorem zero_counter_v4_counterexample:
  "traffic_loop_v4 config Colors [''eth0: 0 0 0 0 0 0 0 0 0 0 0 0 0 0 0 0''] =
     ([SEPIA Colors @ ''  eth0:'' @ RESET Colors,
       ''    RX: '' @ GREY Colors @ ''0.0 B'' @ RESET Colors,
       ''    TX: '' @ GREY Colors @ ''0.0 B'' @ RESET Colors], None)"
  by (simp add: traffic_v4_eval text_eval format_bytes_eval)

text \<open>
  C4 (amended). A line without a colon (in \<^verbatim>\<open>if_8v2.py\<close>), and in both drafts a line
  \<open>nm @ '':'' @ r\<close> with fewer than nine whitespace tokens after the colon or with a
  token 0 or 8 that is not an integer, is skipped without an exception, and the loop does
  on the lines around it what it does without it. Only \<^verbatim>\<open>if_8v2.py\<close> prints a diagnostic,
  and only for the non-numeric line.
\<close>

theorem malformed_line_skipped:
  assumes "CHR '':'' \<notin> set nm" and "CHR '':'' \<notin> set r"
  shows "(CHR '':'' \<notin> set l \<longrightarrow>
            traffic_line_v2 l = ([], None)
          \<and> traffic_loop_v2 (pre @ l # post) = traffic_loop_v2 (pre @ post))
     \<and> (length (split_ws r) < 9 \<longrightarrow>
            traffic_line_v2 (nm @ '':'' @ r) = ([], None)
          \<and> traffic_loop_v2 (pre @ (nm @ '':'' @ r) # post) = traffic_loop_v2 (pre @ post)
          \<and> traffic_loop_v4 cfg col (pre @ (nm @ '':'' @ r) # post)
              = traffic_loop_v4 cfg col (pre @ post))
     \<and> (9 \<le> length (split_ws r)
          \<and> (py_int (split_ws r ! 0) = None \<or> py_int (split_ws r ! 8) = None) \<longrightarrow>
            traffic_line_v2 (nm @ '':'' @ r)
              = ([''Skipping invalid stats for interface: '' @ strip nm], None)
          \<and> traffic_loop_v2 ((nm @ '':'' @ r) # post)
              = ((''Skipping invalid stats for interface: '' @ strip nm)
                   # fst (traffic_loop_v2 post), snd (traffic_loop_v2 post))
          \<and> traffic_loop_v4 cfg col (pre @ (nm @ '':'' @ r) # post)
              = traffic_loop_v4 cfg col (pre @ post))"
proof (intro conjI impI)
  assume "CHR '':'' \<notin> set l"
  then show a: "traffic_line_v2 l = ([], None)"
    by (simp add: traffic_line_v2_def parse_line_v2_no_colon)
  then show "traffic_loop_v2 (pre @ l # post) = traffic_loop_v2 (pre @ post)"
    by (rule traffic_loop_v2_silent)
next
  assume few: "length (split_ws r) < 9"
  show b: "traffic_line_v2 (nm @ '':'' @ r) = ([], None)"
    using parse_line_v2_few [OF assms few] by (simp add: traffic_line_v2_def)
  then show "traffic_loop_v2 (pre @ (nm @ '':'' @ r) # post) = traffic_loop_v2 (pre @ post)"
    by (rule traffic_loop_v2_silent)
  have e: "traffic_entry_v4 cfg col (strip nm) (split_ws r) = ([], None)"
    by (rule traffic_entry_v4_malformed) (use few in simp)
  show "traffic_loop_v4 cfg col (pre @ (nm @ '':'' @ r) # post)
              = traffic_loop_v4 cfg col (pre @ post)"
    by (rule traffic_loop_v4_silent [OF parse_line_v4_colon [OF assms] disjI2 [OF e]])
next
  assume bad: "9 \<le> length (split_ws r)
          \<and> (py_int (split_ws r ! 0) = None \<or> py_int (split_ws r ! 8) = None)"
  then have p: "parse_line_v2 (nm @ '':'' @ r) = Invalid (strip nm)"
    using parse_line_v2_non_numeric [OF assms] by blast
  then show c: "traffic_line_v2 (nm @ '':'' @ r)
              = ([''Skipping invalid stats for interface: '' @ strip nm], None)"
    by (simp add: traffic_line_v2_def)
  then show "traffic_loop_v2 ((nm @ '':'' @ r) # post)
              = ((''Skipping invalid stats for interface: '' @ strip nm)
                   # fst (traffic_loop_v2 post), snd (traffic_loop_v2 post))"
    by (simp add: and_then_def)
  have e: "traffic_entry_v4 cfg col (strip nm) (split_ws r) = ([], None)"
    by (rule traffic_entry_v4_malformed) (use bad in auto)
  show "traffic_loop_v4 cfg col (pre @ (nm @ '':'' @ r) # post)
              = traffic_loop_v4 cfg col (pre @ post)"
    by (rule traffic_loop_v4_silent [OF parse_line_v4_colon [OF assms] disjI2 [OF e]])
qed

theorem malformed_line_skipped_witness:
  "CHR '':'' \<notin> set ''wlan0'' \<and> CHR '':'' \<notin> set '' 1 2 3 4 5''
   \<and> CHR '':'' \<notin> set ''no colon here''
   \<and> length (split_ws '' 1 2 3 4 5'') < 9
   \<and> traffic_loop_v2 ([''eth0: 100 0 0 0 0 0 0 0 200''] @ ''no colon here'' # [''eth1: 1 0 0 0 0 0 0 0 2''])
       = traffic_loop_v2 ([''eth0: 100 0 0 0 0 0 0 0 200''] @ [''eth1: 1 0 0 0 0 0 0 0 2''])
   \<and> traffic_loop_v2 ([''eth0: 100 0 0 0 0 0 0 0 200''] @ (''wlan0'' @ '':'' @ '' 1 2 3 4 5'') # [''eth1: 1 0 0 0 0 0 0 0 2''])
       = traffic_loop_v2 ([''eth0: 100 0 0 0 0 0 0 0 200''] @ [''eth1: 1 0 0 0 0 0 0 0 2''])
   \<and> traffic_loop_v4 config Colors ([''eth0: 100 0 0 0 0 0 0 0 200''] @ (''wlan0'' @ '':'' @ '' 1 2 3 4 5'') # [''eth1: 1 0 0 0 0 0 0 0 2''])
       = traffic_loop_v4 config Colors ([''eth0: 100 0 0 0 0 0 0 0 200''] @ [''eth1: 1 0 0 0 0 0 0 0 2''])
   \<and> CHR '':'' \<notin> set '' x 2 3 4 5 6 7 8 9''
   \<and> 9 \<le> length (split_ws '' x 2 3 4 5 6 7 8 9'')
   \<and> py_int (split_ws '' x 2 3 4 5 6 7 8 9'' ! 0) = None
   \<and> traffic_line_v2 (''wlan0'' @ '':'' @ '' x 2 3 4 5 6 7 8 9'')
       = ([''Skipping invalid stats for interface: wlan0''], None)
   \<and> traffic_loop_v4 config Colors ([''eth0: 100 0 0 0 0 0 0 0 200''] @ (''wlan0'' @ '':'' @ '' x 2 3 4 5 6 7 8 9'') # [''eth1: 1 0 0 0 0 0 0 0 2''])
       = traffic_loop_v4 config Colors ([''eth0: 100 0 0 0 0 0 0 0 200''] @ [''eth1: 1 0 0 0 0 0 0 0 2''])"
proof -
  have h1: "CHR '':'' \<notin> set ''wlan0''" by simp
  have h2: "CHR '':'' \<notin> set '' 1 2 3 4 5''" by simp
  have h3: "CHR '':'' \<notin> set ''no colon here''" by simp
  have h4: "length (split_ws '' 1 2 3 4 5'') < 9" by (simp add: text_eval)
  have h5: "CHR '':'' \<notin> set '' x 2 3 4 5 6 7 8 9''" by simp
  have h6: "9 \<le> length (split_ws '' x 2 3 4 5 6 7 8 9'')" by (simp add: text_eval)
  have h7: "py_int (split_ws '' x 2 3 4 5 6 7 8 9'' ! 0) = None" by (simp add: text_eval)
  have s: "strip ''wlan0'' = ''wlan0''" by (simp add: text_eval)
  note a = malformed_line_skipped [OF h1 h2, of "''no colon here''"
      "[''eth0: 100 0 0 0 0 0 0 0 200'']" "[''eth1: 1 0 0 0 0 0 0 0 2'']" config Colors]
  note b = malformed_line_skipped [OF h1 h5, of "''no colon here''"
      "[''eth0: 100 0 0 0 0 0 0 0 200'']" "[''eth1: 1 0 0 0 0 0 0 0 2'']" config Colors]
  from a h3 h4 have a1: "traffic_loop_v2 ([''eth0: 100 0 0 0 0 0 0 0 200''] @ ''no colon here'' # [''eth1: 1 0 0 0 0 0 0 0 2''])
       = traffic_loop_v2 ([''eth0: 100 0 0 0 0 0 0 0 200''] @ [''eth1: 1 0 0 0 0 0 0 0 2''])"
    by blast
  from a h4 have a2: "traffic_loop_v2 ([''eth0: 100 0 0 0 0 0 0 0 200''] @ (''wlan0'' @ '':'' @ '' 1 2 3 4 5'') # [''eth1: 1 0 0 0 0 0 0 0 2''])
       = traffic_loop_v2 ([''eth0: 100 0 0 0 0 0 0 0 200''] @ [''eth1: 1 0 0 0 0 0 0 0 2''])"
    by blast
  from a h4 have a3: "traffic_loop_v4 config Colors ([''eth0: 100 0 0 0 0 0 0 0 200''] @ (''wlan0'' @ '':'' @ '' 1 2 3 4 5'') # [''eth1: 1 0 0 0 0 0 0 0 2''])
       = traffic_loop_v4 config Colors ([''eth0: 100 0 0 0 0 0 0 0 200''] @ [''eth1: 1 0 0 0 0 0 0 0 2''])"
    by blast
  from b h6 h7 have b1: "traffic_line_v2 (''wlan0'' @ '':'' @ '' x 2 3 4 5 6 7 8 9'')
       = ([''Skipping invalid stats for interface: '' @ strip ''wlan0''], None)"
    by blast
  from b h6 h7 have b2: "traffic_loop_v4 config Colors ([''eth0: 100 0 0 0 0 0 0 0 200''] @ (''wlan0'' @ '':'' @ '' x 2 3 4 5 6 7 8 9'') # [''eth1: 1 0 0 0 0 0 0 0 2''])
       = traffic_loop_v4 config Colors ([''eth0: 100 0 0 0 0 0 0 0 200''] @ [''eth1: 1 0 0 0 0 0 0 0 2''])"
    by blast
  from b1 have b1': "traffic_line_v2 (''wlan0'' @ '':'' @ '' x 2 3 4 5 6 7 8 9'')
       = ([''Skipping invalid stats for interface: wlan0''], None)"
    unfolding s by simp
  from h1 h2 h3 h4 h5 h6 h7 a1 a2 a3 b1' b2 show ?thesis by (intro conjI)
qed

text \<open>
  C4 as stated fails on the specification's own example, a line with five fields after
  the colon: neither draft prints a diagnostic for it.
\<close>

theorem short_line_no_diagnostic_counterexample:
  "traffic_loop_v2 [''eth0: 1 2 3 4 5'' @ [NL]] = ([], None)
   \<and> traffic_loop_v4 config Colors [''eth0: 1 2 3 4 5''] = ([], None)"
  by (simp add: traffic_v2_eval traffic_v4_eval text_eval index_error_def)


section \<open>The interface filter\<close>

lemma excluded_iff:
  "FILTER_INTERFACES cfg = Some F \<Longrightarrow> F \<noteq> {} \<Longrightarrow> excluded cfg i = (i \<notin> F)"
  by (simp add: excluded_def)

lemma network_loop_v4_filter:
  assumes "FILTER_INTERFACES cfg = Some F" and "F \<noteq> {}"
  shows "network_loop_v4 cfg col h names = network_loop_v4 cfg col h (filter (\<lambda>i. i \<in> F) names)"
  by (induction names) (simp_all add: excluded_iff [OF assms])

lemma network_loop_v4_excluded:
  "excluded cfg i \<Longrightarrow>
     network_loop_v4 cfg col h (pre @ i # post) = network_loop_v4 cfg col h (pre @ post)"
  by (induction pre) simp_all

lemmas network_v4_eval =
  display_network_info_v4_def excluded_def and_then_def get_interface_info_v4_def
  interface_attributes_v4_def except_Exception_def ipv4_entry_def AF_INET_def get_or_NA_def
  get_mtu_v4_def get_mtu_ioctl_v4_def get_mtu_sysfs_v4_def pack_16sH_def pack_s_def pack_H_def
  encode_def slice_def unpack_H_def mtu_lines_v4_def truthy_def str_int_def str_nat.simps
  digit_char_def is_Exception_def

lemma example_network_eth0_only:
  "display_network_info_v4 (config\<lparr>FILTER_INTERFACES := Some {''eth0''}, COLOR_OUTPUT := False\<rparr>)
      (disable Colors) example_host
   = ([''Network Interfaces:'', ''eth0:'', ''    inet: 192.168.1.10'',
       ''    netmask: 255.255.255.0'', ''    broadcast: 192.168.1.255'', ''    MTU: 1500''], None)"
  by (simp add: network_v4_eval example_host_def config_def disable_def Colors_def
      ifreq_mtu_reply_def le_bytes32_def)

lemma example_stat_lines:
  "stat_lines_v4 example_stats
   = [''eth0: 100 0 0 0 0 0 0 0 200 0 0 0 0 0 0 0'', ''wlan0: 4096 0 0 0 0 0 0 0 1536 0 0 0 0 0 0 0'']"
  by (simp add: example_stats_def stat_lines_v4_def text_eval)

lemma example_traffic_eth0_only:
  "display_traffic_stats_v4 (config\<lparr>FILTER_INTERFACES := Some {''eth0''}, COLOR_OUTPUT := False\<rparr>)
      (disable Colors) example_host
   = ([[NL] @ ''Traffic Statistics:'', ''  eth0:'', ''    RX: 100.0 B'', ''    TX: 200.0 B''], None)"
  by (simp add: display_traffic_stats_v4_def example_host_def example_stat_lines
      except_Exception_def traffic_v4_eval text_eval format_bytes_eval disable_def Colors_def)

text \<open>
  C6. With a non-empty \<^verbatim>\<open>FILTER_INTERFACES\<close> \<open>F\<close>, the network-info loop of \<^verbatim>\<open>if_v4.py\<close>
  does what it does on the members of \<open>F\<close> alone, and the traffic loop does on the lines
  around a line whose name (the text left of the first colon, trimmed) is not in \<open>F\<close>
  what it does without that line. With the filter eth0 and colours off, a host that lists
  eth0 and wlan0 in its enumeration and in its statistics table gets a report with no
  line for wlan0 in either part.
\<close>

theorem filter_restricts_both_pipelines:
  assumes "FILTER_INTERFACES cfg = Some F" and "F \<noteq> {}"
  shows "network_loop_v4 cfg col h names
           = network_loop_v4 cfg col h (filter (\<lambda>i. i \<in> F) names)
     \<and> (i \<notin> F \<longrightarrow>
           network_loop_v4 cfg col h (pre @ i # post) = network_loop_v4 cfg col h (pre @ post))
     \<and> (CHR '':'' \<notin> set a \<and> strip a \<notin> F \<longrightarrow>
           traffic_loop_v4 cfg col (ls @ (a @ '':'' @ b) # ls') = traffic_loop_v4 cfg col (ls @ ls'))
     \<and> main_v4 (config\<lparr>FILTER_INTERFACES := Some {''eth0''}, COLOR_OUTPUT := False\<rparr>) example_host
         = ([''Network Interfaces:'', ''eth0:'', ''    inet: 192.168.1.10'',
             ''    netmask: 255.255.255.0'', ''    broadcast: 192.168.1.255'', ''    MTU: 1500'',
             [NL] @ ''Traffic Statistics:'', ''  eth0:'', ''    RX: 100.0 B'', ''    TX: 200.0 B''],
            0)"
proof (intro conjI impI)
  show "network_loop_v4 cfg col h names
           = network_loop_v4 cfg col h (filter (\<lambda>i. i \<in> F) names)"
    using assms by (rule network_loop_v4_filter)
next
  assume "i \<notin> F"
  then have "excluded cfg i" by (simp add: excluded_iff [OF assms])
  then show "network_loop_v4 cfg col h (pre @ i # post) = network_loop_v4 cfg col h (pre @ post)"
    by (rule network_loop_v4_excluded)
next
  assume a: "CHR '':'' \<notin> set a \<and> strip a \<notin> F"
  then obtain stats where p: "parse_line_v4 (a @ '':'' @ b) = Inr (strip a, stats)"
    using parse_line_v4_name by blast
  have "excluded cfg (strip a)" using a by (simp add: excluded_iff [OF assms])
  then show "traffic_loop_v4 cfg col (ls @ (a @ '':'' @ b) # ls') = traffic_loop_v4 cfg col (ls @ ls')"
    by (intro traffic_loop_v4_silent [OF p] disjI1)
next
  show "main_v4 (config\<lparr>FILTER_INTERFACES := Some {''eth0''}, COLOR_OUTPUT := False\<rparr>) example_host
         = ([''Network Interfaces:'', ''eth0:'', ''    inet: 192.168.1.10'',
             ''    netmask: 255.255.255.0'', ''    broadcast: 192.168.1.255'', ''    MTU: 1500'',
             [NL] @ ''Traffic Statistics:'', ''  eth0:'', ''    RX: 100.0 B'', ''    TX: 200.0 B''],
            0)"
    by (simp add: main_v4_def [of _ example_host] example_network_eth0_only
        example_traffic_eth0_only and_then_def)
      (simp add: starts_with_def example_host_def)
qed

theorem filter_restricts_both_pipelines_witness:
  "FILTER_INTERFACES (config\<lparr>FILTER_INTERFACES := Some {''eth0''}\<rparr>) = Some {''eth0''}
   \<and> {''eth0''} \<noteq> ({} :: string set)
   \<and> ''wlan0'' \<notin> {''eth0''}
   \<and> CHR '':'' \<notin> set '' wlan0'' \<and> strip '' wlan0'' \<notin> {''eth0''}
   \<and> network_loop_v4 (config\<lparr>FILTER_INTERFACES := Some {''eth0''}\<rparr>) Colors example_host
        ([''eth0''] @ ''wlan0'' # [])
      = network_loop_v4 (config\<lparr>FILTER_INTERFACES := Some {''eth0''}\<rparr>) Colors example_host
        ([''eth0''] @ [])
   \<and> traffic_loop_v4 (config\<lparr>FILTER_INTERFACES := Some {''eth0''}\<rparr>) Colors
        ([''eth0: 100 0 0 0 0 0 0 0 200''] @ ('' wlan0'' @ '':'' @ '' 4096 0 0 0 0 0 0 0 1536'') # [])
      = traffic_loop_v4 (config\<lparr>FILTER_INTERFACES := Some {''eth0''}\<rparr>) Colors
        ([''eth0: 100 0 0 0 0 0 0 0 200''] @ [])"
proof -
  have h1: "FILTER_INTERFACES (config\<lparr>FILTER_INTERFACES := Some {''eth0''}\<rparr>) = Some {''eth0''}"
    by simp
  have h2: "{''eth0''} \<noteq> ({} :: string set)" by simp
  have h3: "''wlan0'' \<notin> {''eth0''}" by simp
  have h4: "CHR '':'' \<notin> set '' wlan0'' \<and> strip '' wlan0'' \<notin> {''eth0''}"
    by (simp add: text_eval)
  note t = filter_restricts_both_pipelines [OF h1 h2, of Colors example_host _ "''wlan0''"
      "[''eth0'']" "[]" "'' wlan0''" "[''eth0: 100 0 0 0 0 0 0 0 200'']"
      "'' 4096 0 0 0 0 0 0 0 1536''" "[]"]
  from t h3 have a: "network_loop_v4 (config\<lparr>FILTER_INTERFACES := Some {''eth0''}\<rparr>) Colors example_host
        ([''eth0''] @ ''wlan0'' # [])
      = network_loop_v4 (config\<lparr>FILTER_INTERFACES := Some {''eth0''}\<rparr>) Colors example_host
        ([''eth0''] @ [])"
    by blast
  from t h4 have b: "traffic_loop_v4 (config\<lparr>FILTER_INTERFACES := Some {''eth0''}\<rparr>) Colors
        ([''eth0: 100 0 0 0 0 0 0 0 200''] @ ('' wlan0'' @ '':'' @ '' 4096 0 0 0 0 0 0 0 1536'') # [])
      = traffic_loop_v4 (config\<lparr>FILTER_INTERFACES := Some {''eth0''}\<rparr>) Colors
        ([''eth0: 100 0 0 0 0 0 0 0 200''] @ [])"
    by blast
  from h1 h2 h3 h4 a b show ?thesis by (intro conjI) simp_all
qed


section \<open>The MTU lookup\<close>

lemma low16:
  "uint (ucast (w :: 32 word) :: 8 word) + 256 * uint (ucast (drop_bit 8 w) :: 8 word)
     = uint w mod 65536"
proof -
  have a: "uint (ucast w :: 8 word) = uint w mod 256"
    by (simp add: unsigned_ucast_eq take_bit_eq_mod)
  have "uint (drop_bit 8 w) = uint w div 256"
    by (simp add: drop_bit_eq_div uint_div_distrib)
  then have b: "uint (ucast (drop_bit 8 w) :: 8 word) = (uint w div 256) mod 256"
    by (simp only: unsigned_ucast_eq take_bit_eq_mod) simp
  have "uint w mod (256 * 256) = 256 * (uint w div 256 mod 256) + uint w mod 256"
    by (rule zmod_zmult2_eq) simp
  then show ?thesis unfolding a b by simp
qed

lemma length_pack_s: "length (pack_s n bs) = n"
  by (simp add: pack_s_def)

lemma slice_ifreq_mtu_reply:
  assumes "18 \<le> length arg"
  shows "slice 16 18 (ifreq_mtu_reply mtu arg) = [ucast mtu, ucast (drop_bit 8 mtu)]"
  using assms by (simp add: slice_def ifreq_mtu_reply_def le_bytes32_def min_def)

lemma unpack_H_range:
  assumes "unpack_H bs = Inr m"
  shows "0 \<le> m \<and> m \<le> 65535"
proof -
  from assms obtain b0 b1 :: byte where m: "m = uint b0 + 256 * uint b1"
    by (auto simp: unpack_H_def split: list.splits)
  have "uint b0 < 256" "uint b1 < 256" "0 \<le> uint b0" "0 \<le> uint b1"
    using uint_bounded [of b0] uint_bounded [of b1] by simp_all
  then show ?thesis unfolding m by linarith
qed

lemma unpack_H_reply:
  assumes "18 \<le> length arg"
  shows "unpack_H (slice 16 18 (ifreq_mtu_reply mtu arg)) = Inr (uint mtu mod 2 ^ 16)"
  by (simp add: slice_ifreq_mtu_reply [OF assms] unpack_H_def low16)

lemma unpack_H_bytes_16_17:
  assumes "18 \<le> length reply"
  shows "unpack_H (slice 16 18 reply) = Inr (uint (reply ! 16) + 256 * uint (reply ! 17))"
proof -
  have "drop 16 reply = reply ! 16 # drop 17 reply"
    using assms by (intro Cons_nth_drop_Suc [symmetric, of 16 reply, simplified]) simp
  moreover have "drop 17 reply = reply ! 17 # drop 18 reply"
    using assms by (intro Cons_nth_drop_Suc [symmetric, of 17 reply, simplified]) simp
  ultimately have "slice 16 18 reply = [reply ! 16, reply ! 17]"
    by (simp add: slice_def)
  then show ?thesis by (simp add: unpack_H_def)
qed

lemma get_mtu_ioctl_v4_range:
  assumes "get_mtu_ioctl_v4 h i = Inr m"
  shows "0 \<le> m \<and> m \<le> 65535"
  using assms unpack_H_range
  by (auto simp: get_mtu_ioctl_v4_def Let_def split: sum.splits)

lemma get_mtu_v2_range:
  assumes "get_mtu_v2 h i = (p, Inr (Some m))"
  shows "0 \<le> m \<and> m \<le> 65535"
  using assms unpack_H_range
  by (auto simp: get_mtu_v2_def split: sum.splits if_splits)

text \<open>
  C9. On both drafts the device-control path unpacks bytes 16 and 17 of the reply as one
  unsigned 16-bit integer, so what it returns lies between 0 and 65535; when the reply is
  the one the kernel of a little-endian host writes for an MTU \<open>mtu\<close>, it is
  \<open>mtu mod 2 ^ 16\<close>, and for an MTU of 65536 it is 0.
\<close>

theorem ioctl_mtu_low_16_bits:
  "(get_mtu_ioctl_v4 h i = Inr m \<longrightarrow> 0 \<le> m \<and> m \<le> 65535)
   \<and> (get_mtu_v2 h i = (p, Inr (Some m')) \<longrightarrow> 0 \<le> m' \<and> m' \<le> 65535)
   \<and> (ioctl h SIOCGIFMTU (pack_16sH (encode i) 0) = Inr reply \<and> 18 \<le> length reply \<longrightarrow>
        get_mtu_ioctl_v4 h i = Inr (uint (reply ! 16) + 256 * uint (reply ! 17)))
   \<and> ((\<forall>arg. ioctl h SIOCGIFMTU arg = Inr (ifreq_mtu_reply mtu arg)) \<longrightarrow>
        get_mtu_ioctl_v4 h i = Inr (uint mtu mod 2 ^ 16)
      \<and> get_mtu_v4 cfg h i = Inr (Some (uint mtu mod 2 ^ 16))
      \<and> get_mtu_v2 h i = ([], Inr (Some (uint mtu mod 2 ^ 16))))
   \<and> get_mtu_v4 config (example_host\<lparr>ioctl := \<lambda>request arg. Inr (ifreq_mtu_reply 65536 arg)\<rparr>) ''lo''
        = Inr (Some 0)"
proof (intro conjI impI)
  assume "get_mtu_ioctl_v4 h i = Inr m"
  then show "0 \<le> m" "m \<le> 65535" using get_mtu_ioctl_v4_range by blast+
next
  assume "get_mtu_v2 h i = (p, Inr (Some m'))"
  then show "0 \<le> m'" "m' \<le> 65535" using get_mtu_v2_range by blast+
next
  assume "ioctl h SIOCGIFMTU (pack_16sH (encode i) 0) = Inr reply \<and> 18 \<le> length reply"
  then show "get_mtu_ioctl_v4 h i = Inr (uint (reply ! 16) + 256 * uint (reply ! 17))"
    by (simp add: get_mtu_ioctl_v4_def unpack_H_bytes_16_17)
next
  assume k: "\<forall>arg. ioctl h SIOCGIFMTU arg = Inr (ifreq_mtu_reply mtu arg)"
  have l4: "18 \<le> length (pack_16sH (encode i) 0)"
    by (simp add: pack_16sH_def pack_H_def length_pack_s)
  have l2: "18 \<le> length (pack_s 256 (take 16 (encode i)))"
    by (simp add: length_pack_s)
  show a: "get_mtu_ioctl_v4 h i = Inr (uint mtu mod 2 ^ 16)"
    using k unpack_H_reply [OF l4] by (simp add: get_mtu_ioctl_v4_def)
  then show "get_mtu_v4 cfg h i = Inr (Some (uint mtu mod 2 ^ 16))"
    by (simp add: get_mtu_v4_def)
  show "get_mtu_v2 h i = ([], Inr (Some (uint mtu mod 2 ^ 16)))"
    using k unpack_H_reply [OF l2] by (simp add: get_mtu_v2_def)
next
  have l4: "18 \<le> length (pack_16sH (encode ''lo'') 0)"
    by (simp add: pack_16sH_def pack_H_def length_pack_s)
  show "get_mtu_v4 config (example_host\<lparr>ioctl := \<lambda>request arg. Inr (ifreq_mtu_reply 65536 arg)\<rparr>) ''lo''
        = Inr (Some 0)"
    using unpack_H_reply [OF l4, of 65536] by (simp add: get_mtu_v4_def get_mtu_ioctl_v4_def)
qed

theorem ioctl_mtu_low_16_bits_witness:
  "(\<forall>arg. ioctl example_host SIOCGIFMTU arg = Inr (ifreq_mtu_reply 1500 arg))
   \<and> get_mtu_ioctl_v4 example_host ''eth0'' = Inr 1500
   \<and> (0::int) \<le> 1500 \<and> (1500::int) \<le> 65535
   \<and> get_mtu_v4 config example_host ''eth0'' = Inr (Some 1500)
   \<and> get_mtu_v2 example_host ''eth0'' = ([], Inr (Some 1500))"
proof -
  have h: "\<forall>arg. ioctl example_host SIOCGIFMTU arg = Inr (ifreq_mtu_reply 1500 arg)"
    by (simp add: example_host_def)
  have u: "uint (1500 :: 32 word) mod 2 ^ 16 = 1500" by simp
  note t = ioctl_mtu_low_16_bits [of example_host "''eth0''" 1500 "[]" 1500 _ 1500 config]
  from t h have a: "get_mtu_ioctl_v4 example_host ''eth0'' = Inr 1500" unfolding u by blast
  from t h have b: "get_mtu_v4 config example_host ''eth0'' = Inr (Some 1500)" unfolding u by blast
  from t h have c: "get_mtu_v2 example_host ''eth0'' = ([], Inr (Some 1500))" unfolding u by blast
  from t a have d: "(0::int) \<le> 1500 \<and> (1500::int) \<le> 65535" by blast
  from h a b c d show ?thesis by blast
qed


lemma get_mtu_ioctl_v4_read_file:
  "get_mtu_ioctl_v4 (h\<lparr>read_file := f\<rparr>) i = get_mtu_ioctl_v4 h i"
  by (simp add: get_mtu_ioctl_v4_def)

lemma interface_attributes_v4_mtu:
  assumes "ifaddresses h i = Inr addrs" and "ipv4_entry addrs = Inr d"
    and "get_mtu_v4 cfg h i = Inr m"
  shows "interface_attributes_v4 cfg h i =
           ([''    inet: '' @ get_or_NA d ''addr'', ''    netmask: '' @ get_or_NA d ''netmask'',
             ''    broadcast: '' @ get_or_NA d ''broadcast''] @ mtu_lines_v4 m, None)"
  using assms by (simp add: interface_attributes_v4_def)

lemma get_interface_info_v4_returns:
  assumes "interface_attributes_v4 cfg h i = (out, None)"
  shows "get_interface_info_v4 cfg col h i = ((SEPIA col @ i @ '':'' @ RESET col) # out, None)"
  using assms by (simp add: get_interface_info_v4_def except_Exception_def and_then_def)

lemma get_interface_info_v4_caught:
  assumes "interface_attributes_v4 cfg h i = (out, Some e)" and "is_Exception e"
  shows "get_interface_info_v4 cfg col h i =
           ((SEPIA col @ i @ '':'' @ RESET col) # out
              @ [RED col @ ''    Error: '' @ msg e @ RESET col], None)"
  using assms by (simp add: get_interface_info_v4_def except_Exception_def and_then_def)

lemma interface_attributes_v2_mtu:
  assumes "ifaddresses h i = Inr addrs" and "ipv4_entry addrs = Inr d"
    and "get_mtu_v2 h i = (p, Inr m)"
  shows "interface_attributes_v2 h i =
           ([''    inet: '' @ get_or_NA d ''addr'', ''    netmask: '' @ get_or_NA d ''netmask'',
             ''    broadcast: '' @ get_or_NA d ''broadcast''] @ p @ mtu_lines_v2 m, None)"
  using assms by (simp add: interface_attributes_v2_def)

lemma get_interface_info_v2_returns:
  assumes "interface_attributes_v2 h i = (out, None)"
  shows "get_interface_info_v2 h i = ((SEP_COLOR @ i @ '':'' @ RESET_COLOR) # out, None)"
  using assms by (simp add: get_interface_info_v2_def except_Exception_def and_then_def)

lemma get_interface_info_v2_caught:
  assumes "interface_attributes_v2 h i = (out, Some e)" and "is_Exception e"
  shows "get_interface_info_v2 h i =
           ((SEP_COLOR @ i @ '':'' @ RESET_COLOR) # out
              @ [''    Error retrieving interface information: '' @ msg e], None)"
  using assms by (simp add: get_interface_info_v2_def except_Exception_def and_then_def)

text \<open>
  C5 (amended). \<^verbatim>\<open>get_mtu\<close> of \<^verbatim>\<open>if_v4.py\<close> returns what the device-control query gives
  whenever that query succeeds, whatever the file system holds; when the query leaves with
  \<^verbatim>\<open>OSError\<close> or \<^verbatim>\<open>struct.error\<close> and the sysfs file holds \<open>1500\<close> (with or without a
  final newline) it returns 1500; when the read fails too, with \<^verbatim>\<open>OSError\<close> or with a
  content that is no integer, it returns \<^verbatim>\<open>None\<close> and raises nothing, and
  \<^verbatim>\<open>get_interface_info\<close> then prints the header and the three address lines and no line
  about the MTU.
\<close>

theorem mtu_lookup_order:
  "(get_mtu_ioctl_v4 h i = Inr m \<longrightarrow> get_mtu_v4 cfg (h\<lparr>read_file := f\<rparr>) i = Inr (Some m))
   \<and> (get_mtu_ioctl_v4 h i = Inl e \<and> (cls e = OSError \<or> cls e = StructError) \<longrightarrow>
        (read_file h (SYSFS_NET_PATH cfg @ ''/'' @ i @ ''/mtu'') = Inr ''1500'' \<longrightarrow>
           get_mtu_v4 cfg h i = Inr (Some 1500))
      \<and> (read_file h (SYSFS_NET_PATH cfg @ ''/'' @ i @ ''/mtu'') = Inr (''1500'' @ [NL]) \<longrightarrow>
           get_mtu_v4 cfg h i = Inr (Some 1500))
      \<and> (get_mtu_sysfs_v4 cfg h i = Inl e' \<and> (cls e' = OSError \<or> cls e' = ValueError) \<longrightarrow>
           get_mtu_v4 cfg h i = Inr None
         \<and> (ifaddresses h i = Inr addrs \<and> ipv4_entry addrs = Inr d \<longrightarrow>
              get_interface_info_v4 cfg col h i =
                ([SEPIA col @ i @ '':'' @ RESET col,
                  ''    inet: '' @ get_or_NA d ''addr'',
                  ''    netmask: '' @ get_or_NA d ''netmask'',
                  ''    broadcast: '' @ get_or_NA d ''broadcast''], None))))"
proof (intro conjI impI)
  assume "get_mtu_ioctl_v4 h i = Inr m"
  then show "get_mtu_v4 cfg (h\<lparr>read_file := f\<rparr>) i = Inr (Some m)"
    by (simp add: get_mtu_v4_def get_mtu_ioctl_v4_read_file)
next
  assume q: "get_mtu_ioctl_v4 h i = Inl e \<and> (cls e = OSError \<or> cls e = StructError)"
  {
    assume "read_file h (SYSFS_NET_PATH cfg @ ''/'' @ i @ ''/mtu'') = Inr ''1500''"
    then have "get_mtu_sysfs_v4 cfg h i = Inr 1500"
      by (simp add: get_mtu_sysfs_v4_def text_eval)
    then show "get_mtu_v4 cfg h i = Inr (Some 1500)"
      using q by (auto simp: get_mtu_v4_def)
  }
  {
    assume "read_file h (SYSFS_NET_PATH cfg @ ''/'' @ i @ ''/mtu'') = Inr (''1500'' @ [NL])"
    then have "get_mtu_sysfs_v4 cfg h i = Inr 1500"
      by (simp add: get_mtu_sysfs_v4_def text_eval)
    then show "get_mtu_v4 cfg h i = Inr (Some 1500)"
      using q by (auto simp: get_mtu_v4_def)
  }
  {
    assume s: "get_mtu_sysfs_v4 cfg h i = Inl e' \<and> (cls e' = OSError \<or> cls e' = ValueError)"
    then show n: "get_mtu_v4 cfg h i = Inr None"
      using q by (auto simp: get_mtu_v4_def)
    assume a: "ifaddresses h i = Inr addrs \<and> ipv4_entry addrs = Inr d"
    have "interface_attributes_v4 cfg h i =
           ([''    inet: '' @ get_or_NA d ''addr'', ''    netmask: '' @ get_or_NA d ''netmask'',
             ''    broadcast: '' @ get_or_NA d ''broadcast''] @ mtu_lines_v4 None, None)"
      by (rule interface_attributes_v4_mtu [OF conjunct1 [OF a] conjunct2 [OF a] n])
    then show "get_interface_info_v4 cfg col h i =
                ([SEPIA col @ i @ '':'' @ RESET col,
                  ''    inet: '' @ get_or_NA d ''addr'',
                  ''    netmask: '' @ get_or_NA d ''netmask'',
                  ''    broadcast: '' @ get_or_NA d ''broadcast''], None)"
      using get_interface_info_v4_returns by (simp add: mtu_lines_v4_def truthy_def)
  }
qed

theorem mtu_lookup_order_witness:
  "get_mtu_ioctl_v4 example_host ''eth0'' = Inr 1500
   \<and> get_mtu_v4 config (example_host\<lparr>read_file := \<lambda>p. Inr ''9000''\<rparr>) ''eth0'' = Inr (Some 1500)
   \<and> get_mtu_ioctl_v4 (failing_host\<lparr>read_file := \<lambda>p. Inr ''1500''\<rparr>) ''eth0''
       = Inl (Exn OSError ''[Errno 19] No such device'')
   \<and> cls (Exn OSError ''[Errno 19] No such device'') = OSError
   \<and> read_file (failing_host\<lparr>read_file := \<lambda>p. Inr ''1500''\<rparr>)
        (SYSFS_NET_PATH config @ ''/'' @ ''eth0'' @ ''/mtu'') = Inr ''1500''
   \<and> get_mtu_v4 config (failing_host\<lparr>read_file := \<lambda>p. Inr ''1500''\<rparr>) ''eth0'' = Inr (Some 1500)
   \<and> get_mtu_ioctl_v4 failing_host ''eth0'' = Inl (Exn OSError ''[Errno 19] No such device'')
   \<and> get_mtu_sysfs_v4 config failing_host ''eth0''
       = Inl (Exn OSError ''[Errno 2] No such file or directory'')
   \<and> get_mtu_v4 config failing_host ''eth0'' = Inr None"
proof -
  have u: "uint (1500 :: 32 word) mod 2 ^ 16 = 1500" by simp
  have l4: "18 \<le> length (pack_16sH (encode ''eth0'') 0)"
    by (simp add: pack_16sH_def pack_H_def length_pack_s)
  have h1: "get_mtu_ioctl_v4 example_host ''eth0'' = Inr 1500"
    using unpack_H_reply [OF l4, of 1500] by (simp add: get_mtu_ioctl_v4_def example_host_def)
  have h2: "get_mtu_ioctl_v4 (failing_host\<lparr>read_file := \<lambda>p. Inr ''1500''\<rparr>) ''eth0''
       = Inl (Exn OSError ''[Errno 19] No such device'')"
    by (simp add: get_mtu_ioctl_v4_def failing_host_def)
  have h3: "cls (Exn OSError ''[Errno 19] No such device'') = OSError" by simp
  have h4: "read_file (failing_host\<lparr>read_file := \<lambda>p. Inr ''1500''\<rparr>)
        (SYSFS_NET_PATH config @ ''/'' @ ''eth0'' @ ''/mtu'') = Inr ''1500''" by simp
  have h5: "get_mtu_ioctl_v4 failing_host ''eth0'' = Inl (Exn OSError ''[Errno 19] No such device'')"
    by (simp add: get_mtu_ioctl_v4_def failing_host_def)
  have h6: "get_mtu_sysfs_v4 config failing_host ''eth0''
       = Inl (Exn OSError ''[Errno 2] No such file or directory'')"
    by (simp add: get_mtu_sysfs_v4_def failing_host_def)
  have h7: "cls (Exn OSError ''[Errno 2] No such file or directory'') = OSError" by simp
  from mtu_lookup_order [of example_host "''eth0''" 1500 config "\<lambda>p. Inr ''9000''"] h1
  have a: "get_mtu_v4 config (example_host\<lparr>read_file := \<lambda>p. Inr ''9000''\<rparr>) ''eth0'' = Inr (Some 1500)"
    by blast
  from mtu_lookup_order [of "failing_host\<lparr>read_file := \<lambda>p. Inr ''1500''\<rparr>" "''eth0''" _ config _
      "Exn OSError ''[Errno 19] No such device''"] h2 h3 h4
  have b: "get_mtu_v4 config (failing_host\<lparr>read_file := \<lambda>p. Inr ''1500''\<rparr>) ''eth0'' = Inr (Some 1500)"
    by blast
  from mtu_lookup_order [of failing_host "''eth0''" _ config _
      "Exn OSError ''[Errno 19] No such device''" "Exn OSError ''[Errno 2] No such file or directory''"]
    h5 h3 h6 h7
  have c: "get_mtu_v4 config failing_host ''eth0'' = Inr None"
    by blast
  from h1 a h2 h3 h4 b h5 h6 c show ?thesis by (intro conjI)
qed

text \<open>
  C5 as stated fails in its last part: on a host where the query and the sysfs read both
  fail, \<^verbatim>\<open>get_interface_info\<close> of \<^verbatim>\<open>if_v4.py\<close> prints four lines, none of them about the
  MTU; the draft has no \<open>Unable to retrieve\<close> text.
\<close>

theorem mtu_sentinel_counterexample:
  "get_mtu_v4 config failing_host ''eth0'' = Inr None
   \<and> get_interface_info_v4 config Colors failing_host ''eth0'' =
       ([SEPIA Colors @ ''eth0:'' @ RESET Colors, ''    inet: N/A'', ''    netmask: N/A'',
         ''    broadcast: N/A''], None)"
  by (simp add: network_v4_eval failing_host_def config_def)


text \<open>
  C10. Both drafts branch on the truth value of the MTU, so 0 takes the branch of
  \<^verbatim>\<open>None\<close>: \<^verbatim>\<open>if_v4.py\<close> prints no MTU line and \<^verbatim>\<open>if_8v2.py\<close> prints
  \<open>MTU: Unable to retrieve\<close>; neither prints \<open>MTU: 0\<close>. When the lookup returns 0 the
  whole report of the interface is the header, the three address lines and, in
  \<^verbatim>\<open>if_8v2.py\<close>, the sentinel line. A host whose device-control reply carries 0 in bytes
  16-17 shows it.
\<close>

theorem zero_mtu_rendered_as_unavailable:
  "mtu_lines_v4 (Some 0) = mtu_lines_v4 None \<and> mtu_lines_v4 (Some 0) = []
   \<and> mtu_lines_v2 (Some 0) = mtu_lines_v2 None
   \<and> mtu_lines_v2 (Some 0) = [''    MTU: Unable to retrieve'']
   \<and> ''    MTU: 0'' \<notin> set (mtu_lines_v4 (Some 0)) \<and> ''    MTU: 0'' \<notin> set (mtu_lines_v2 (Some 0))
   \<and> (ifaddresses h i = Inr addrs \<and> ipv4_entry addrs = Inr d
        \<and> get_mtu_v4 cfg h i = Inr (Some 0) \<longrightarrow>
        get_interface_info_v4 cfg col h i =
          ([SEPIA col @ i @ '':'' @ RESET col,
            ''    inet: '' @ get_or_NA d ''addr'',
            ''    netmask: '' @ get_or_NA d ''netmask'',
            ''    broadcast: '' @ get_or_NA d ''broadcast''], None))
   \<and> (ifaddresses h i = Inr addrs \<and> ipv4_entry addrs = Inr d
        \<and> get_mtu_v2 h i = (p, Inr (Some 0)) \<longrightarrow>
        get_interface_info_v2 h i =
          ([SEP_COLOR @ i @ '':'' @ RESET_COLOR,
            ''    inet: '' @ get_or_NA d ''addr'',
            ''    netmask: '' @ get_or_NA d ''netmask'',
            ''    broadcast: '' @ get_or_NA d ''broadcast''] @ p
           @ [''    MTU: Unable to retrieve''], None))
   \<and> get_interface_info_v4 config Colors
        (example_host\<lparr>ioctl := \<lambda>request arg. Inr (ifreq_mtu_reply 65536 arg)\<rparr>) ''eth0'' =
          ([SEPIA Colors @ ''eth0:'' @ RESET Colors, ''    inet: 192.168.1.10'',
            ''    netmask: 255.255.255.0'', ''    broadcast: 192.168.1.255''], None)
   \<and> get_interface_info_v2
        (example_host\<lparr>ioctl := \<lambda>request arg. Inr (ifreq_mtu_reply 65536 arg)\<rparr>) ''eth0'' =
          ([SEP_COLOR @ ''eth0:'' @ RESET_COLOR, ''    inet: 192.168.1.10'',
            ''    netmask: 255.255.255.0'', ''    broadcast: 192.168.1.255'',
            ''    MTU: Unable to retrieve''], None)"
proof (intro conjI impI)
  show "mtu_lines_v4 (Some 0) = mtu_lines_v4 None" "mtu_lines_v4 (Some 0) = []"
    "''    MTU: 0'' \<notin> set (mtu_lines_v4 (Some 0))"
    by (simp_all add: mtu_lines_v4_def truthy_def)
  show "mtu_lines_v2 (Some 0) = mtu_lines_v2 None"
    "mtu_lines_v2 (Some 0) = [''    MTU: Unable to retrieve'']"
    "''    MTU: 0'' \<notin> set (mtu_lines_v2 (Some 0))"
    by (simp_all add: mtu_lines_v2_def truthy_def)
next
  assume a: "ifaddresses h i = Inr addrs \<and> ipv4_entry addrs = Inr d
        \<and> get_mtu_v4 cfg h i = Inr (Some 0)"
  then have "interface_attributes_v4 cfg h i =
           ([''    inet: '' @ get_or_NA d ''addr'', ''    netmask: '' @ get_or_NA d ''netmask'',
             ''    broadcast: '' @ get_or_NA d ''broadcast''] @ mtu_lines_v4 (Some 0), None)"
    using interface_attributes_v4_mtu [of h i addrs d cfg "Some 0"] by blast
  then show "get_interface_info_v4 cfg col h i =
          ([SEPIA col @ i @ '':'' @ RESET col,
            ''    inet: '' @ get_or_NA d ''addr'',
            ''    netmask: '' @ get_or_NA d ''netmask'',
            ''    broadcast: '' @ get_or_NA d ''broadcast''], None)"
    using get_interface_info_v4_returns by (simp add: mtu_lines_v4_def truthy_def)
next
  assume a: "ifaddresses h i = Inr addrs \<and> ipv4_entry addrs = Inr d
        \<and> get_mtu_v2 h i = (p, Inr (Some 0))"
  then have "interface_attributes_v2 h i =
           ([''    inet: '' @ get_or_NA d ''addr'', ''    netmask: '' @ get_or_NA d ''netmask'',
             ''    broadcast: '' @ get_or_NA d ''broadcast''] @ p @ mtu_lines_v2 (Some 0), None)"
    using interface_attributes_v2_mtu [of h i addrs d p "Some 0"] by blast
  then show "get_interface_info_v2 h i =
          ([SEP_COLOR @ i @ '':'' @ RESET_COLOR,
            ''    inet: '' @ get_or_NA d ''addr'',
            ''    netmask: '' @ get_or_NA d ''netmask'',
            ''    broadcast: '' @ get_or_NA d ''broadcast''] @ p
           @ [''    MTU: Unable to retrieve''], None)"
    using get_interface_info_v2_returns by (simp add: mtu_lines_v2_def truthy_def)
next
  have l4: "18 \<le> length (pack_16sH (encode ''eth0'') 0)"
    by (simp add: pack_16sH_def pack_H_def length_pack_s)
  have "get_mtu_ioctl_v4 (example_host\<lparr>ioctl := \<lambda>request arg. Inr (ifreq_mtu_reply 65536 arg)\<rparr>)
          ''eth0'' = Inr 0"
    using unpack_H_reply [OF l4, of 65536] by (simp add: get_mtu_ioctl_v4_def)
  then show "get_interface_info_v4 config Colors
        (example_host\<lparr>ioctl := \<lambda>request arg. Inr (ifreq_mtu_reply 65536 arg)\<rparr>) ''eth0'' =
          ([SEPIA Colors @ ''eth0:'' @ RESET Colors, ''    inet: 192.168.1.10'',
            ''    netmask: 255.255.255.0'', ''    broadcast: 192.168.1.255''], None)"
    by (simp add: get_interface_info_v4_def interface_attributes_v4_def get_mtu_v4_def
        except_Exception_def and_then_def ipv4_entry_def AF_INET_def get_or_NA_def
        mtu_lines_v4_def truthy_def example_host_def)
next
  have l2: "18 \<le> length (pack_s 256 (take 16 (encode ''eth0'')))"
    by (simp add: length_pack_s)
  have "get_mtu_v2 (example_host\<lparr>ioctl := \<lambda>request arg. Inr (ifreq_mtu_reply 65536 arg)\<rparr>)
          ''eth0'' = ([], Inr (Some 0))"
    using unpack_H_reply [OF l2, of 65536] by (simp add: get_mtu_v2_def)
  then show "get_interface_info_v2
        (example_host\<lparr>ioctl := \<lambda>request arg. Inr (ifreq_mtu_reply 65536 arg)\<rparr>) ''eth0'' =
          ([SEP_COLOR @ ''eth0:'' @ RESET_COLOR, ''    inet: 192.168.1.10'',
            ''    netmask: 255.255.255.0'', ''    broadcast: 192.168.1.255'',
            ''    MTU: Unable to retrieve''], None)"
    by (simp add: get_interface_info_v2_def interface_attributes_v2_def
        except_Exception_def and_then_def ipv4_entry_def AF_INET_def get_or_NA_def
        mtu_lines_v2_def truthy_def example_host_def)
qed

theorem zero_mtu_rendered_as_unavailable_witness:
  "ifaddresses (failing_host\<lparr>read_file := \<lambda>p. Inr ''0''\<rparr>) ''eth0'' = Inr Map.empty
   \<and> ipv4_entry Map.empty = Inr Map.empty
   \<and> get_mtu_v4 config (failing_host\<lparr>read_file := \<lambda>p. Inr ''0''\<rparr>) ''eth0'' = Inr (Some 0)
   \<and> get_interface_info_v4 config Colors (failing_host\<lparr>read_file := \<lambda>p. Inr ''0''\<rparr>) ''eth0'' =
          ([SEPIA Colors @ ''eth0:'' @ RESET Colors, ''    inet: N/A'', ''    netmask: N/A'',
            ''    broadcast: N/A''], None)"
proof -
  have h1: "ifaddresses (failing_host\<lparr>read_file := \<lambda>p. Inr ''0''\<rparr>) ''eth0'' = Inr Map.empty"
    by (simp add: failing_host_def)
  have h2: "ipv4_entry Map.empty = Inr Map.empty" by (simp add: ipv4_entry_def)
  have h3: "get_mtu_v4 config (failing_host\<lparr>read_file := \<lambda>p. Inr ''0''\<rparr>) ''eth0'' = Inr (Some 0)"
    by (simp add: get_mtu_v4_def get_mtu_ioctl_v4_def get_mtu_sysfs_v4_def failing_host_def
        text_eval)
  from zero_mtu_rendered_as_unavailable [of "failing_host\<lparr>read_file := \<lambda>p. Inr ''0''\<rparr>"
      "''eth0''" Map.empty Map.empty config Colors] h1 h2 h3
  have "get_interface_info_v4 config Colors (failing_host\<lparr>read_file := \<lambda>p. Inr ''0''\<rparr>) ''eth0'' =
          ([SEPIA Colors @ ''eth0:'' @ RESET Colors,
            ''    inet: '' @ get_or_NA Map.empty ''addr'',
            ''    netmask: '' @ get_or_NA Map.empty ''netmask'',
            ''    broadcast: '' @ get_or_NA Map.empty ''broadcast''], None)"
    by simp
  then show ?thesis using h1 h2 h3 by (simp add: get_or_NA_def)
qed


section \<open>One interface at a time\<close>

lemma ipv4_entry_absent: "addrs AF_INET = None \<Longrightarrow> ipv4_entry addrs = Inr Map.empty"
  by (simp add: ipv4_entry_def)

lemma interface_attributes_v4_no_ipv4:
  assumes "ifaddresses h i = Inr addrs" and "addrs AF_INET = None"
  shows "take 3 (fst (interface_attributes_v4 cfg h i))
           = [''    inet: N/A'', ''    netmask: N/A'', ''    broadcast: N/A'']"
  using assms
  by (simp add: interface_attributes_v4_def ipv4_entry_absent get_or_NA_def Let_def
      split: sum.splits)

lemma interface_attributes_v2_no_ipv4:
  assumes "ifaddresses h i = Inr addrs" and "addrs AF_INET = None"
  shows "take 3 (fst (interface_attributes_v2 h i))
           = [''    inet: N/A'', ''    netmask: N/A'', ''    broadcast: N/A'']"
  using assms
  by (simp add: interface_attributes_v2_def ipv4_entry_absent get_or_NA_def Let_def
      split: sum.splits prod.splits)

text \<open>
  C7. In both drafts an interface with no IPv4 entry gets \<open>N/A\<close> for inet, netmask and
  broadcast, and when the MTU lookup returns, the report of the interface ends without an
  exception. An exception deriving from \<^verbatim>\<open>Exception\<close> that leaves the body of the \<^verbatim>\<open>try\<close>
  (from the address query, from an empty IPv4 list, from the MTU lookup) is printed as one
  error line after what the body had printed, \<^verbatim>\<open>get_interface_info\<close> returns, and the loop
  goes on with the interfaces after it.
\<close>

theorem interface_failures_contained:
  assumes "is_Exception e"
  shows "(ifaddresses h i = Inr addrs \<and> addrs AF_INET = None \<longrightarrow>
            take 3 (fst (interface_attributes_v4 cfg h i))
              = [''    inet: N/A'', ''    netmask: N/A'', ''    broadcast: N/A'']
          \<and> take 3 (fst (interface_attributes_v2 h i))
              = [''    inet: N/A'', ''    netmask: N/A'', ''    broadcast: N/A'']
          \<and> (get_mtu_v4 cfg h i = Inr m \<longrightarrow>
               get_interface_info_v4 cfg col h i =
                 ([SEPIA col @ i @ '':'' @ RESET col, ''    inet: N/A'', ''    netmask: N/A'',
                   ''    broadcast: N/A''] @ mtu_lines_v4 m, None))
          \<and> (get_mtu_v2 h i = (p, Inr m) \<longrightarrow>
               get_interface_info_v2 h i =
                 ([SEP_COLOR @ i @ '':'' @ RESET_COLOR, ''    inet: N/A'', ''    netmask: N/A'',
                   ''    broadcast: N/A''] @ p @ mtu_lines_v2 m, None)))
     \<and> (ifaddresses h i = Inl e \<longrightarrow>
            interface_attributes_v4 cfg h i = ([], Some e)
          \<and> interface_attributes_v2 h i = ([], Some e))
     \<and> (interface_attributes_v4 cfg h i = (out, Some e) \<longrightarrow>
            get_interface_info_v4 cfg col h i =
              ((SEPIA col @ i @ '':'' @ RESET col) # out
                 @ [RED col @ ''    Error: '' @ msg e @ RESET col], None)
          \<and> (\<not> excluded cfg i \<longrightarrow>
               network_loop_v4 cfg col h (i # rest) =
                 (((SEPIA col @ i @ '':'' @ RESET col) # out
                     @ [RED col @ ''    Error: '' @ msg e @ RESET col])
                    @ fst (network_loop_v4 cfg col h rest),
                  snd (network_loop_v4 cfg col h rest))))
     \<and> (interface_attributes_v2 h i = (out, Some e) \<longrightarrow>
            get_interface_info_v2 h i =
              ((SEP_COLOR @ i @ '':'' @ RESET_COLOR) # out
                 @ [''    Error retrieving interface information: '' @ msg e], None)
          \<and> network_loop_v2 h (i # rest) =
              (((SEP_COLOR @ i @ '':'' @ RESET_COLOR) # out
                  @ [''    Error retrieving interface information: '' @ msg e])
                 @ fst (network_loop_v2 h rest),
               snd (network_loop_v2 h rest)))"
proof (intro conjI impI)
  assume a: "ifaddresses h i = Inr addrs \<and> addrs AF_INET = None"
  then have a1: "ifaddresses h i = Inr addrs" and a2: "addrs AF_INET = None" by blast+
  show "take 3 (fst (interface_attributes_v4 cfg h i))
          = [''    inet: N/A'', ''    netmask: N/A'', ''    broadcast: N/A'']"
    using a1 a2 by (rule interface_attributes_v4_no_ipv4)
  show "take 3 (fst (interface_attributes_v2 h i))
          = [''    inet: N/A'', ''    netmask: N/A'', ''    broadcast: N/A'']"
    using a1 a2 by (rule interface_attributes_v2_no_ipv4)
  {
    assume "get_mtu_v4 cfg h i = Inr m"
    from interface_attributes_v4_mtu [OF a1 ipv4_entry_absent [of addrs, OF a2] this]
    show "get_interface_info_v4 cfg col h i =
                 ([SEPIA col @ i @ '':'' @ RESET col, ''    inet: N/A'', ''    netmask: N/A'',
                   ''    broadcast: N/A''] @ mtu_lines_v4 m, None)"
      using get_interface_info_v4_returns by (simp add: get_or_NA_def)
  }
  {
    assume "get_mtu_v2 h i = (p, Inr m)"
    from interface_attributes_v2_mtu [OF a1 ipv4_entry_absent [of addrs, OF a2] this]
    show "get_interface_info_v2 h i =
                 ([SEP_COLOR @ i @ '':'' @ RESET_COLOR, ''    inet: N/A'', ''    netmask: N/A'',
                   ''    broadcast: N/A''] @ p @ mtu_lines_v2 m, None)"
      using get_interface_info_v2_returns by (simp add: get_or_NA_def)
  }
next
  assume "ifaddresses h i = Inl e"
  then show "interface_attributes_v4 cfg h i = ([], Some e)"
    "interface_attributes_v2 h i = ([], Some e)"
    by (simp_all add: interface_attributes_v4_def interface_attributes_v2_def)
next
  assume b: "interface_attributes_v4 cfg h i = (out, Some e)"
  show g: "get_interface_info_v4 cfg col h i =
              ((SEPIA col @ i @ '':'' @ RESET col) # out
                 @ [RED col @ ''    Error: '' @ msg e @ RESET col], None)"
    using b assms by (rule get_interface_info_v4_caught)
  assume "\<not> excluded cfg i"
  then show "network_loop_v4 cfg col h (i # rest) =
                 (((SEPIA col @ i @ '':'' @ RESET col) # out
                     @ [RED col @ ''    Error: '' @ msg e @ RESET col])
                    @ fst (network_loop_v4 cfg col h rest),
                  snd (network_loop_v4 cfg col h rest))"
    by (simp add: g and_then_def)
next
  assume b: "interface_attributes_v2 h i = (out, Some e)"
  show g: "get_interface_info_v2 h i =
              ((SEP_COLOR @ i @ '':'' @ RESET_COLOR) # out
                 @ [''    Error retrieving interface information: '' @ msg e], None)"
    using b assms by (rule get_interface_info_v2_caught)
  show "network_loop_v2 h (i # rest) =
              (((SEP_COLOR @ i @ '':'' @ RESET_COLOR) # out
                  @ [''    Error retrieving interface information: '' @ msg e])
                 @ fst (network_loop_v2 h rest),
               snd (network_loop_v2 h rest))"
    by (simp add: g and_then_def)
qed

theorem interface_failures_contained_witness:
  "is_Exception (Exn ValueError ''You must specify a valid interface name.'')
   \<and> ifaddresses example_host ''tun0''
       = Inl (Exn ValueError ''You must specify a valid interface name.'')
   \<and> interface_attributes_v4 (config\<lparr>FILTER_INTERFACES := None\<rparr>) example_host ''tun0''
       = ([], Some (Exn ValueError ''You must specify a valid interface name.''))
   \<and> \<not> excluded (config\<lparr>FILTER_INTERFACES := None\<rparr>) ''tun0''
   \<and> network_loop_v4 (config\<lparr>FILTER_INTERFACES := None\<rparr>) Colors example_host [''tun0'', ''eth0'']
       = ([SEPIA Colors @ ''tun0:'' @ RESET Colors,
           RED Colors @ ''    Error: You must specify a valid interface name.'' @ RESET Colors,
           SEPIA Colors @ ''eth0:'' @ RESET Colors, ''    inet: 192.168.1.10'',
           ''    netmask: 255.255.255.0'', ''    broadcast: 192.168.1.255'', ''    MTU: 1500''],
          None)
   \<and> ifaddresses failing_host ''eth0'' = Inr Map.empty
   \<and> (Map.empty :: nat \<rightharpoonup> addr_dict list) AF_INET = None
   \<and> take 3 (fst (interface_attributes_v4 config failing_host ''eth0''))
       = [''    inet: N/A'', ''    netmask: N/A'', ''    broadcast: N/A'']"
proof -
  let ?e = "Exn ValueError ''You must specify a valid interface name.''"
  let ?cfg = "config\<lparr>FILTER_INTERFACES := None\<rparr>"
  have h0: "is_Exception ?e" by (simp add: is_Exception_def)
  have h1: "ifaddresses example_host ''tun0'' = Inl ?e" by (simp add: example_host_def)
  have h2: "\<not> excluded ?cfg ''tun0''" by (simp add: excluded_def)
  have h3: "ifaddresses failing_host ''eth0'' = Inr Map.empty" by (simp add: failing_host_def)
  have h4: "(Map.empty :: nat \<rightharpoonup> addr_dict list) AF_INET = None" by simp
  have r: "network_loop_v4 ?cfg Colors example_host [''eth0'']
       = ([SEPIA Colors @ ''eth0:'' @ RESET Colors, ''    inet: 192.168.1.10'',
           ''    netmask: 255.255.255.0'', ''    broadcast: 192.168.1.255'', ''    MTU: 1500''],
          None)"
    by (simp add: network_v4_eval example_host_def config_def ifreq_mtu_reply_def le_bytes32_def)
  note t = interface_failures_contained [OF h0, where h = example_host and i = "''tun0''"
      and cfg = ?cfg and col = Colors and out = "[]" and rest = "[''eth0'']"]
  from t h1 have a: "interface_attributes_v4 ?cfg example_host ''tun0'' = ([], Some ?e)"
    by blast
  from t a h2 have b: "network_loop_v4 ?cfg Colors example_host (''tun0'' # [''eth0'']) =
                 (((SEPIA Colors @ ''tun0'' @ '':'' @ RESET Colors) # []
                     @ [RED Colors @ ''    Error: '' @ msg ?e @ RESET Colors])
                    @ fst (network_loop_v4 ?cfg Colors example_host [''eth0'']),
                  snd (network_loop_v4 ?cfg Colors example_host [''eth0'']))"
    by blast
  from interface_failures_contained [OF h0, where h = failing_host and i = "''eth0''"
      and addrs = Map.empty and cfg = config] h3 h4
  have c: "take 3 (fst (interface_attributes_v4 config failing_host ''eth0''))
       = [''    inet: N/A'', ''    netmask: N/A'', ''    broadcast: N/A'']"
    by blast
  have b': "network_loop_v4 ?cfg Colors example_host [''tun0'', ''eth0'']
       = ([SEPIA Colors @ ''tun0:'' @ RESET Colors,
           RED Colors @ ''    Error: You must specify a valid interface name.'' @ RESET Colors,
           SEPIA Colors @ ''eth0:'' @ RESET Colors, ''    inet: 192.168.1.10'',
           ''    netmask: 255.255.255.0'', ''    broadcast: 192.168.1.255'', ''    MTU: 1500''],
          None)"
    unfolding b r by simp
  from h0 h1 a h2 b' h3 h4 c show ?thesis by (intro conjI)
qed

section \<open>The whole run\<close>

text \<open>
  C8. On a Linux host where the statistics path does not exist, \<^verbatim>\<open>display_traffic_stats\<close>
  of \<^verbatim>\<open>if_v4.py\<close> prints the one line \<open>Error: <path> not found\<close> and returns. \<^verbatim>\<open>main\<close>
  then prints the lines of the network part followed by this line and the exit status is
  0; the status is 0 exactly when the network part, which runs first, returned without an
  exception, its failure being the separate case of an unexpected error.
\<close>

theorem missing_stats_source:
  assumes "starts_with (platform h) ''linux''"
    and "\<not> path_exists h (PROC_NET_DEV cfg)"
  shows "display_traffic_stats_v4 cfg col h
           = ([RED col @ ''Error: '' @ PROC_NET_DEV cfg @ '' not found'' @ RESET col], None)
     \<and> (display_network_info_v4 cfg (if \<not> COLOR_OUTPUT cfg then disable Colors else Colors) h
           = (out, None) \<longrightarrow>
         main_v4 cfg h =
           (out @ [RED (if \<not> COLOR_OUTPUT cfg then disable Colors else Colors)
                     @ ''Error: '' @ PROC_NET_DEV cfg @ '' not found''
                     @ RESET (if \<not> COLOR_OUTPUT cfg then disable Colors else Colors)], 0))
     \<and> (snd (main_v4 cfg h) = 0 \<longleftrightarrow>
         snd (display_network_info_v4 cfg
                (if \<not> COLOR_OUTPUT cfg then disable Colors else Colors) h) = None)"
proof -
  have t: "\<And>c. display_traffic_stats_v4 cfg c h
           = ([RED c @ ''Error: '' @ PROC_NET_DEV cfg @ '' not found'' @ RESET c], None)"
    using assms(2) by (simp add: display_traffic_stats_v4_def)
  have m: "display_network_info_v4 cfg (if \<not> COLOR_OUTPUT cfg then disable Colors else Colors) h
           = (out, None) \<longrightarrow>
         main_v4 cfg h =
           (out @ [RED (if \<not> COLOR_OUTPUT cfg then disable Colors else Colors)
                     @ ''Error: '' @ PROC_NET_DEV cfg @ '' not found''
                     @ RESET (if \<not> COLOR_OUTPUT cfg then disable Colors else Colors)], 0)"
    using assms(1) by (simp add: t main_v4_def and_then_def Let_def)
  obtain o1 r where n: "display_network_info_v4 cfg
      (if \<not> COLOR_OUTPUT cfg then disable Colors else Colors) h = (o1, r)"
    by (cases "display_network_info_v4 cfg
      (if \<not> COLOR_OUTPUT cfg then disable Colors else Colors) h")
  have i: "snd (main_v4 cfg h) = 0 \<longleftrightarrow>
         snd (display_network_info_v4 cfg
                (if \<not> COLOR_OUTPUT cfg then disable Colors else Colors) h) = None"
    using assms(1) by (cases r) (simp_all add: n t main_v4_def and_then_def Let_def)
  from t m i show ?thesis by blast
qed

theorem missing_stats_source_witness:
  "starts_with (platform (example_host\<lparr>path_exists := \<lambda>p. False\<rparr>)) ''linux''
   \<and> \<not> path_exists (example_host\<lparr>path_exists := \<lambda>p. False\<rparr>)
         (PROC_NET_DEV (config\<lparr>COLOR_OUTPUT := False\<rparr>))
   \<and> display_traffic_stats_v4 (config\<lparr>COLOR_OUTPUT := False\<rparr>) (disable Colors)
         (example_host\<lparr>path_exists := \<lambda>p. False\<rparr>)
       = ([''Error: /proc/net/dev not found''], None)
   \<and> main_v4 (config\<lparr>COLOR_OUTPUT := False\<rparr>) (example_host\<lparr>path_exists := \<lambda>p. False\<rparr>) =
       ([''Network Interfaces:'', ''eth0:'', ''    inet: 192.168.1.10'',
         ''    netmask: 255.255.255.0'', ''    broadcast: 192.168.1.255'', ''    MTU: 1500'',
         ''wlan0:'', ''    inet: 10.0.0.7'', ''    netmask: 255.0.0.0'',
         ''    broadcast: 10.255.255.255'', ''    MTU: 1500'',
         ''Error: /proc/net/dev not found''], 0)"
proof -
  let ?h = "example_host\<lparr>path_exists := \<lambda>p. False\<rparr>"
  let ?cfg = "config\<lparr>COLOR_OUTPUT := False\<rparr>"
  have h1: "starts_with (platform ?h) ''linux''"
    by (simp add: starts_with_def example_host_def)
  have h2: "\<not> path_exists ?h (PROC_NET_DEV ?cfg)" by simp
  have h3: "display_network_info_v4 ?cfg (if \<not> COLOR_OUTPUT ?cfg then disable Colors else Colors) ?h
     = ([''Network Interfaces:'', ''eth0:'', ''    inet: 192.168.1.10'',
         ''    netmask: 255.255.255.0'', ''    broadcast: 192.168.1.255'', ''    MTU: 1500'',
         ''wlan0:'', ''    inet: 10.0.0.7'', ''    netmask: 255.0.0.0'',
         ''    broadcast: 10.255.255.255'', ''    MTU: 1500''], None)"
    by (simp add: network_v4_eval example_host_def config_def disable_def Colors_def
        ifreq_mtu_reply_def le_bytes32_def)
  note t = missing_stats_source [OF h1 h2, of "disable Colors"]
  from t have a: "display_traffic_stats_v4 ?cfg (disable Colors) ?h
           = ([RED (disable Colors) @ ''Error: '' @ PROC_NET_DEV ?cfg @ '' not found''
                 @ RESET (disable Colors)], None)"
    by blast
  from t h3 have b: "main_v4 ?cfg ?h =
       ([''Network Interfaces:'', ''eth0:'', ''    inet: 192.168.1.10'',
         ''    netmask: 255.255.255.0'', ''    broadcast: 192.168.1.255'', ''    MTU: 1500'',
         ''wlan0:'', ''    inet: 10.0.0.7'', ''    netmask: 255.0.0.0'',
         ''    broadcast: 10.255.255.255'', ''    MTU: 1500'']
        @ [RED (if \<not> COLOR_OUTPUT ?cfg then disable Colors else Colors)
             @ ''Error: '' @ PROC_NET_DEV ?cfg @ '' not found''
             @ RESET (if \<not> COLOR_OUTPUT ?cfg then disable Colors else Colors)], 0)"
    by blast
  from a b h1 h2 show ?thesis
    by (simp add: disable_def Colors_def config_def)
qed

text \<open>
  The unexpected-error case next to it: when the interface list cannot be read, \<^verbatim>\<open>main\<close>
  prints the section header and a critical error and the exit status is 1; the traffic
  part is not reached, whether or not the statistics path exists.
\<close>

lemma network_failure_ends_run:
  "main_v4 config failing_host =
     ([GREY Colors @ ''Network Interfaces:'' @ RESET Colors,
       RED Colors @ ''Critical error: [Errno 24] Too many open files'' @ RESET Colors], 1)"
  by (simp add: main_v4_def starts_with_def failing_host_def config_def
      display_network_info_v4_def and_then_def)

end
